theory Spec2Isabelle
  imports Complex_Main
begin

section \<open>JavaScript values\<close>

text \<open>
  A JavaScript string is a sequence of UTF-16 code units; a code unit is kept as a
  natural number, so that prompts in Chinese and ASCII keys live in one type.
  \<open>str\<close> turns an ASCII literal of the source into such a string.
\<close>

type_synonym jsstring = "nat list"

definition str :: "string \<Rightarrow> jsstring" where
  "str s = map of_char s"

text \<open>
  A Number is a finite rational (every finite double is one), \<open>NaN\<close> or an infinity.
  The sign of zero is not kept.
\<close>

datatype jsnum = Fin rat | NaN | PosInf | NegInf

text \<open>
  The values a parsed JSON body, a multipart field or an upstream answer can hold, with
  Node's \<open>Buffer\<close> (a list of bytes) beside them. An object is the list of its own
  properties. \<open>field\<close> reads a property under a name that the source writes out
  (\<open>url\<close>, \<open>model\<close>, \<open>duration\<close>, ...); none of these names is a member of
  \<open>Object.prototype\<close>, so a property that the object does not own reads as \<open>undefined\<close>.
\<close>

datatype jsval =
    JUndefined
  | JNull
  | JBool bool
  | JNum jsnum
  | JStr jsstring
  | JArr "jsval list"
  | JObj "(jsstring \<times> jsval) list"
  | JBuffer "nat list"

definition field :: "(jsstring \<times> jsval) list \<Rightarrow> string \<Rightarrow> jsval" where
  "field kvs k = (case map_of kvs (str k) of None \<Rightarrow> JUndefined | Some v \<Rightarrow> v)"

fun isUndefined :: "jsval \<Rightarrow> bool" where
  "isUndefined JUndefined = True"
| "isUndefined _ = False"

fun isString :: "jsval \<Rightarrow> bool" where
  "isString (JStr _) = True"
| "isString _ = False"

fun isArray :: "jsval \<Rightarrow> bool" where
  "isArray (JArr _) = True"
| "isArray _ = False"

fun isFinite :: "jsval \<Rightarrow> bool" where
  "isFinite (JNum (Fin _)) = True"
| "isFinite _ = False"

fun isObject :: "jsval \<Rightarrow> bool" where
  "isObject (JArr _) = True"
| "isObject (JObj _) = True"
| "isObject (JBuffer _) = True"
| "isObject _ = False"

text \<open>The accessors below are only applied under the type test that guards them in the source.\<close>

fun string_of :: "jsval \<Rightarrow> jsstring" where
  "string_of (JStr s) = s"
| "string_of _ = []"

fun number_of :: "jsval \<Rightarrow> jsnum" where
  "number_of (JNum n) = n"
| "number_of _ = NaN"

fun array_of :: "jsval \<Rightarrow> jsval list" where
  "array_of (JArr xs) = xs"
| "array_of _ = []"

definition startsWith :: "jsstring \<Rightarrow> jsstring \<Rightarrow> bool" where
  "startsWith s p = (take (length p) s = p)"

subsection \<open>Numbers: \<open>Number.isInteger\<close>, comparison, \<open>parseInt\<close>\<close>

fun Number_isInteger :: "jsnum \<Rightarrow> bool" where
  "Number_isInteger (Fin q) = (of_int \<lfloor>q\<rfloor> = q)"
| "Number_isInteger _ = False"

fun num_ge :: "jsnum \<Rightarrow> rat \<Rightarrow> bool" where
  "num_ge (Fin q) c = (c \<le> q)"
| "num_ge PosInf c = True"
| "num_ge _ c = False"

fun num_le :: "jsnum \<Rightarrow> rat \<Rightarrow> bool" where
  "num_le (Fin q) c = (q \<le> c)"
| "num_le NegInf c = True"
| "num_le _ c = False"

text \<open>
  The Number nearest to a natural number: exact up to \<open>2^53\<close>, beyond that rounded to
  53 significant bits (ties to even) and to \<open>Infinity\<close> from \<open>2^1024\<close> on.
\<close>

fun bitlen :: "nat \<Rightarrow> nat" where
  "bitlen n = (if n = 0 then 0 else Suc (bitlen (n div 2)))"

declare bitlen.simps [simp del]

definition toNumber :: "nat \<Rightarrow> jsnum" where
  "toNumber n =
     (if n \<le> 2 ^ 53 then Fin (of_nat n)
      else
        let e = bitlen n - 53;
            q = n div 2 ^ e;
            r = n mod 2 ^ e;
            h = 2 ^ (e - 1);
            q' = (if h < r \<or> (r = h \<and> odd q) then q + 1 else q)
        in if 2 ^ 1024 \<le> q' * 2 ^ e then PosInf else Fin (of_nat (q' * 2 ^ e)))"

fun negate :: "jsnum \<Rightarrow> jsnum" where
  "negate (Fin q) = Fin (- q)"
| "negate PosInf = NegInf"
| "negate NegInf = PosInf"
| "negate NaN = NaN"

text \<open>White space and line terminators, as \<open>trim\<close>, \<open>\s\<close> and \<open>parseInt\<close> know them.\<close>

definition isWhiteSpace :: "nat \<Rightarrow> bool" where
  "isWhiteSpace c =
     (c \<in> {9, 10, 11, 12, 13, 32, 160, 5760, 8232, 8233, 8239, 8287, 12288, 65279}
      \<or> (8192 \<le> c \<and> c \<le> 8202))"

definition isDigit :: "nat \<Rightarrow> bool" where
  "isDigit c = (48 \<le> c \<and> c \<le> 57)"

definition isRadixDigit :: "nat \<Rightarrow> nat \<Rightarrow> bool" where
  "isRadixDigit R c =
     (isDigit c \<or> (R = 16 \<and> ((97 \<le> c \<and> c \<le> 102) \<or> (65 \<le> c \<and> c \<le> 70))))"

definition digitValue :: "nat \<Rightarrow> nat" where
  "digitValue c = (if isDigit c then c - 48 else if 97 \<le> c then c - 87 else c - 55)"

definition radixValue :: "nat \<Rightarrow> jsstring \<Rightarrow> nat" where
  "radixValue R Z = foldl (\<lambda>acc c. acc * R + digitValue c) 0 Z"

text \<open>
  \<open>parseInt(s)\<close> with no radix: leading white space is skipped, a sign is read, a
  \<open>0x\<close> prefix selects radix 16, and the longest run of digits is the value; none gives
  \<open>NaN\<close>.
\<close>

definition parseInt :: "jsstring \<Rightarrow> jsnum" where
  "parseInt s =
     (let S = dropWhile isWhiteSpace s;
          neg = (take 1 S = [45]);
          S1 = (if take 1 S = [43] \<or> take 1 S = [45] then drop 1 S else S);
          hex = (take 2 S1 = [48, 120] \<or> take 2 S1 = [48, 88]);
          R = (if hex then 16 else 10);
          S2 = (if hex then drop 2 S1 else S1);
          Z = takeWhile (isRadixDigit R) S2
      in if Z = [] then NaN
         else if neg then negate (toNumber (radixValue R Z))
         else toNumber (radixValue R Z))"

section \<open>Errors\<close>

text \<open>
  Every \<open>throw\<close> of the sources is a constructor; \<open>External\<close> stands for whatever a
  collaborator outside the sources raises (the upstream request helper, \<open>fetch\<close>, the
  file system, the credit calls), with its message.
\<close>

datatype error =
    External jsstring
  | TypeError
  | ParamsInvalid string
  | TooManyFiles
  | IntlModelUnsupported jsstring "jsstring list"
  | ResolutionUnsupported jsstring "jsstring list"
  | RatioUnsupported jsstring jsstring "jsstring list"
  | LocalFileMissing jsstring
  | ImageInputUnsupported
  | UploadTokenMissing
  | ApplyNetworkFailed jsstring error
  | ApplyRejected jsval jsstring
  | ApplyError jsval
  | UploadAddressMissing jsval
  | PutNetworkFailed jsval error
  | PutRejected jsval jsstring
  | CommitNetworkFailed jsstring error
  | CommitRejected jsval jsstring
  | CommitError jsval
  | CommitResultsMissing jsval
  | UriStatusAbnormal jsval
  | DownloadRejected jsval
  | ImageUploadFailed error
  | RecordIdMissing

section \<open>The route \<open>POST /v1/videos/generations\<close>\<close>

record request =
  headers :: "(jsstring \<times> jsstring) list"
  body :: "(jsstring \<times> jsval) list"
  files :: "(jsstring \<times> jsval) list option"

definition header :: "request \<Rightarrow> string \<Rightarrow> jsval" where
  "header r k = (case map_of (headers r) (str k) of None \<Rightarrow> JUndefined | Some v \<Rightarrow> JStr v)"

text \<open>
  Modelled from the spec: \<open>Request.validate\<close> (the request validators are not among the
  sources). A field that fails its constraint raises the validation error naming the field;
  a field that meets it lets the chain go on.
\<close>

definition validate :: "string \<Rightarrow> jsval \<Rightarrow> (jsval \<Rightarrow> bool) \<Rightarrow> error + unit" where
  "validate key v checker = (if checker v then Inr () else Inl (ParamsInvalid key))"

definition isMultiPart :: "request \<Rightarrow> bool" where
  "isMultiPart r =
     (let contentType = (case header r ''content-type'' of JStr c \<Rightarrow> c | _ \<Rightarrow> [])
      in startsWith contentType (str ''multipart/form-data''))"

definition durationChecker :: "bool \<Rightarrow> jsval \<Rightarrow> bool" where
  "durationChecker multiPart v =
     (if isUndefined v then True
      else if multiPart \<and> isString v then
        (let num = parseInt (string_of v)
         in Number_isInteger num \<and> num_ge num 4 \<and> num_le num 15)
      else if isFinite v then
        (let num = number_of v
         in Number_isInteger num \<and> num_ge num 4 \<and> num_le num 15)
      else False)"

definition pathsChecker :: "jsval \<Rightarrow> bool" where
  "pathsChecker v = (isUndefined v \<or> (isArray v \<and> length (array_of v) \<le> 2))"

definition optionalString :: "jsval \<Rightarrow> bool" where
  "optionalString v = (isUndefined v \<or> isString v)"

text \<open>The chain of \<open>validate\<close> calls, in the order of the source; the first failure is raised.\<close>

definition validateVideoRequest :: "request \<Rightarrow> error + unit" where
  "validateVideoRequest r =
     (case validate ''body.model'' (field (body r) ''model'') optionalString of Inl e \<Rightarrow> Inl e | Inr _ \<Rightarrow>
      case validate ''body.prompt'' (field (body r) ''prompt'') isString of Inl e \<Rightarrow> Inl e | Inr _ \<Rightarrow>
      case validate ''body.ratio'' (field (body r) ''ratio'') optionalString of Inl e \<Rightarrow> Inl e | Inr _ \<Rightarrow>
      case validate ''body.resolution'' (field (body r) ''resolution'') optionalString of Inl e \<Rightarrow> Inl e | Inr _ \<Rightarrow>
      case validate ''body.duration'' (field (body r) ''duration'') (durationChecker (isMultiPart r)) of Inl e \<Rightarrow> Inl e | Inr _ \<Rightarrow>
      case validate ''body.file_paths'' (field (body r) ''file_paths'') pathsChecker of Inl e \<Rightarrow> Inl e | Inr _ \<Rightarrow>
      case validate ''body.filePaths'' (field (body r) ''filePaths'') pathsChecker of Inl e \<Rightarrow> Inl e | Inr _ \<Rightarrow>
      case validate ''body.response_format'' (field (body r) ''response_format'') optionalString of Inl e \<Rightarrow> Inl e | Inr _ \<Rightarrow>
      validate ''headers.authorization'' (header r ''authorization'') isString)"

text \<open>A destructuring default applies exactly when the property is \<open>undefined\<close>.\<close>

definition withDefault :: "jsval \<Rightarrow> jsval \<Rightarrow> jsval" where
  "withDefault v d = (if isUndefined v then d else v)"

definition finalDuration :: "bool \<Rightarrow> jsval \<Rightarrow> jsval" where
  "finalDuration multiPart duration =
     (if multiPart \<and> isString duration then JNum (parseInt (string_of duration)) else duration)"

text \<open>
  \<open>filePaths.length > 0 ? filePaths : file_paths\<close>. Validation lets only an array or
  \<open>undefined\<close> through for either field and the default turns \<open>undefined\<close> into
  \<open>[]\<close>, so both values are arrays here.
\<close>

definition finalFilePaths :: "jsval list \<Rightarrow> jsval list \<Rightarrow> jsval list" where
  "finalFilePaths filePaths file_paths = (if 0 < length filePaths then filePaths else file_paths)"

text \<open>
  What the route hands to \<open>generateVideo\<close> (the video controller is not among the
  sources, so the route is followed up to that call).
\<close>

record generateVideoCall =
  gv_model :: jsval
  gv_prompt :: jsval
  gv_ratio :: jsval
  gv_resolution :: jsval
  gv_duration :: jsval
  gv_filePaths :: "jsval list"
  gv_files :: "(jsstring \<times> jsval) list option"
  gv_token :: "jsstring option"

text \<open>
  The collaborators of the route: \<open>tokenSplit\<close> of the core controller, the random pick
  of \<open>_.sample\<close> (an index into the token list) and the video controller's default model.
\<close>

record routeEnv =
  tokenSplit :: "jsstring \<Rightarrow> error + jsstring list"
  sampleIndex :: nat
  DEFAULT_VIDEO_MODEL :: jsstring

definition sample :: "nat \<Rightarrow> 'a list \<Rightarrow> 'a option" where
  "sample i xs = (if xs = [] then None else Some (xs ! (i mod length xs)))"

definition videoGenerations :: "routeEnv \<Rightarrow> request \<Rightarrow> error + generateVideoCall" where
  "videoGenerations E r =
     (case validateVideoRequest r of Inl e \<Rightarrow> Inl e | Inr _ \<Rightarrow>
      let uploadedFiles = (case files r of None \<Rightarrow> [] | Some fs \<Rightarrow> map snd fs)
      in if 2 < length uploadedFiles then Inl TooManyFiles
         else
           case tokenSplit E (string_of (header r ''authorization'')) of Inl e \<Rightarrow> Inl e | Inr tokens \<Rightarrow>
           let token = sample (sampleIndex E) tokens;
               model = withDefault (field (body r) ''model'') (JStr (DEFAULT_VIDEO_MODEL E));
               prompt = field (body r) ''prompt'';
               ratio = withDefault (field (body r) ''ratio'') (JStr (str ''1:1''));
               resolution = withDefault (field (body r) ''resolution'') (JStr (str ''720p''));
               duration = withDefault (field (body r) ''duration'') (JNum (Fin 5));
               file_paths = array_of (withDefault (field (body r) ''file_paths'') (JArr []));
               filePaths = array_of (withDefault (field (body r) ''filePaths'') (JArr []))
           in Inr \<lparr> gv_model = model, gv_prompt = prompt, gv_ratio = ratio,
                    gv_resolution = resolution,
                    gv_duration = finalDuration (isMultiPart r) duration,
                    gv_filePaths = finalFilePaths filePaths file_paths,
                    gv_files = files r, gv_token = token \<rparr>)"

section \<open>The route \<open>POST /v1/images/compositions\<close>: image inputs\<close>

text \<open>
  The helpers of \<open>util\<close> that recognise base64 text and Node's base64 decoder
  \<open>Buffer.from(_, 'base64')\<close> are not among the sources; they are parameters.
\<close>

record utilEnv =
  isBASE64Data :: "jsstring \<Rightarrow> bool"
  isBASE64 :: "jsstring \<Rightarrow> bool"
  bufferFromBase64 :: "jsstring \<Rightarrow> nat list"

definition isLineTerminator :: "nat \<Rightarrow> bool" where
  "isLineTerminator c = (c \<in> {10, 13, 8232, 8233})"

text \<open>
  \<open>base64String.match(/^data:image\/[^;]+;base64,(.+)$/)\<close>: after \<open>data:image/\<close> the
  run of characters up to the first \<open>;\<close> must not be empty, \<open>;base64,\<close> must follow
  it, and the rest, which is the captured group, must not be empty and must hold no line
  terminator (the dot does not match one).
\<close>

definition extractBase64Data :: "jsstring \<Rightarrow> jsstring" where
  "extractBase64Data base64String =
     (let rest = drop (length (str ''data:image/'')) base64String;
          mime = takeWhile (\<lambda>c. c \<noteq> 59) rest;
          tail = dropWhile (\<lambda>c. c \<noteq> 59) rest;
          payload = drop (length (str '';base64,'')) tail
      in if startsWith base64String (str ''data:image/'') \<and> mime \<noteq> []
            \<and> startsWith tail (str '';base64,'') \<and> payload \<noteq> []
            \<and> list_all (\<lambda>c. \<not> isLineTerminator c) payload
         then payload
         else base64String)"

definition base64ToBuffer :: "utilEnv \<Rightarrow> jsstring \<Rightarrow> nat list" where
  "base64ToBuffer U base64String = bufferFromBase64 U (extractBase64Data base64String)"

definition trim :: "jsstring \<Rightarrow> jsstring" where
  "trim s = rev (dropWhile isWhiteSpace (rev (dropWhile isWhiteSpace s)))"

text \<open>
  \<open>value.key\<close> for a named key: an object answers with its own property; an array, a
  string and a Buffer own \<open>length\<close> and no other named key; a number and a boolean own
  none. (An indexed element is read by \<open>first\<close> below.)
\<close>

fun memberOf :: "jsval \<Rightarrow> string \<Rightarrow> jsval" where
  "memberOf (JObj kvs) k = field kvs k"
| "memberOf (JArr xs) k = (if k = ''length'' then JNum (Fin (of_nat (length xs))) else JUndefined)"
| "memberOf (JStr s) k = (if k = ''length'' then JNum (Fin (of_nat (length s))) else JUndefined)"
| "memberOf (JBuffer b) k = (if k = ''length'' then JNum (Fin (of_nat (length b))) else JUndefined)"
| "memberOf _ k = JUndefined"

function normalizeImageInput :: "utilEnv \<Rightarrow> jsval \<Rightarrow> jsval" where
  "normalizeImageInput U img =
     (if isString img then
        (let trimmed = trim (string_of img);
             normalizedBase64 = filter (\<lambda>c. \<not> isWhiteSpace c) trimmed
         in if isBASE64Data U trimmed then JBuffer (base64ToBuffer U trimmed)
            else if normalizedBase64 \<noteq> [] \<and> isBASE64 U normalizedBase64
              then JBuffer (base64ToBuffer U normalizedBase64)
            else JStr trimmed)
      else if isObject img then
        (if isString (memberOf img ''b64_json'')
           then JBuffer (base64ToBuffer U (string_of (memberOf img ''b64_json'')))
         else if isString (memberOf img ''base64'')
           then JBuffer (base64ToBuffer U (string_of (memberOf img ''base64'')))
         else if isString (memberOf img ''image_base64'')
           then JBuffer (base64ToBuffer U (string_of (memberOf img ''image_base64'')))
         else if isString (memberOf img ''image_bytes'')
           then JBuffer (base64ToBuffer U (string_of (memberOf img ''image_bytes'')))
         else if isString (memberOf img ''url'')
           then normalizeImageInput U (memberOf img ''url'')
         else img)
      else img)"
  by pat_completeness auto
termination
  by (relation "measure (\<lambda>(U, img). if isString img then 0 else 1)") auto

declare normalizeImageInput.simps [simp del]

text \<open>
  The order in which the claim about object inputs lists the keys. \<open>firstStringKey\<close>
  follows the claim's words: the first key of the list whose value is a string, with
  that string.
\<close>

definition imageKeys :: "string list" where
  "imageKeys = [''b64_json'', ''base64'', ''image_base64'', ''image_bytes'', ''url'']"

fun firstStringKey :: "string list \<Rightarrow> (jsstring \<times> jsval) list \<Rightarrow> (string \<times> jsstring) option" where
  "firstStringKey [] kvs = None"
| "firstStringKey (k # ks) kvs =
     (if isString (field kvs k) then Some (k, string_of (field kvs k)) else firstStringKey ks kvs)"

section \<open>Reading upstream answers\<close>

fun truthy :: "jsval \<Rightarrow> bool" where
  "truthy JUndefined = False"
| "truthy JNull = False"
| "truthy (JBool b) = b"
| "truthy (JNum (Fin q)) = (q \<noteq> 0)"
| "truthy (JNum NaN) = False"
| "truthy (JNum _) = True"
| "truthy (JStr s) = (s \<noteq> [])"
| "truthy _ = True"

text \<open>\<open>value.key\<close> raises a TypeError on \<open>null\<close> and \<open>undefined\<close>; \<open>value?.key\<close> answers \<open>undefined\<close> there.\<close>

fun getProp :: "jsval \<Rightarrow> string \<Rightarrow> error + jsval" where
  "getProp JUndefined k = Inl TypeError"
| "getProp JNull k = Inl TypeError"
| "getProp v k = Inr (memberOf v k)"

fun optProp :: "jsval \<Rightarrow> string \<Rightarrow> jsval" where
  "optProp JUndefined k = JUndefined"
| "optProp JNull k = JUndefined"
| "optProp v k = memberOf v k"

text \<open>\<open>value[0]\<close> on a value that is neither \<open>null\<close> nor \<open>undefined\<close>.\<close>

fun first :: "jsval \<Rightarrow> jsval" where
  "first (JArr (x # xs)) = x"
| "first (JStr (c # cs)) = JStr [c]"
| "first (JBuffer (b # bs)) = JNum (Fin (of_nat b))"
| "first (JObj kvs) = field kvs ''0''"
| "first _ = JUndefined"

section \<open>Effects\<close>

text \<open>
  A run of an asynchronous function is the list of what it did, in order, with its
  outcome: the value it returned or the error it raised. What it does is write a log line,
  or call a collaborator; what the collaborator answers is given by the world the run is
  in. Fields that the source fills from \<open>util.uuid()\<close> and \<open>Date.now()\<close>, the constant
  \<open>type\<close> tags and the fixed browser headers of a \<open>fetch\<close> are not kept.
\<close>

datatype level = LInfo | LWarn | LError

datatype url =
    ApplyImageUploadUrl jsstring jsval nat jsstring bool
  | UploadUrl jsval jsval
  | CommitImageUploadUrl jsstring jsval
  | ImageUrl jsstring

record fetchRequest =
  fr_url :: url
  fr_method :: string
  fr_headers :: "(string \<times> jsval) list"
  fr_body :: jsval

record response =
  resp_ok :: bool
  resp_status :: jsval
  resp_text :: "error + jsstring"
  resp_json :: "error + jsval"
  resp_arrayBuffer :: "error + nat list"

subsection \<open>Tables indexed by a string of the client\<close>

text \<open>
  \<open>table[key]\<close> on a plain object answers the table's own entry when there is one, and
  otherwise what every plain object inherits from \<open>Object.prototype\<close>: under each of the
  twelve names below a built-in function (under \<open>__proto__\<close> the prototype object
  itself), which is truthy, and under any other name \<open>undefined\<close>.
\<close>

definition objectPrototypeKeys :: "jsstring list" where
  "objectPrototypeKeys = map str
     [''constructor'', ''__defineGetter__'', ''__defineSetter__'', ''hasOwnProperty'',
      ''__lookupGetter__'', ''__lookupSetter__'', ''isPrototypeOf'', ''propertyIsEnumerable'',
      ''toString'', ''valueOf'', ''__proto__'', ''toLocaleString'']"

datatype tableValue = Absent | Entry jsstring | Inherited jsstring

definition tableGet :: "(jsstring \<times> jsstring) list \<Rightarrow> jsstring \<Rightarrow> tableValue" where
  "tableGet table key =
     (case map_of table key of
        Some v \<Rightarrow> Entry v
      | None \<Rightarrow> if key \<in> set objectPrototypeKeys then Inherited key else Absent)"

text \<open>Truthiness of what a table answers: every string but the empty one, and every object.\<close>

fun truthyEntry :: "tableValue \<Rightarrow> bool" where
  "truthyEntry Absent = False"
| "truthyEntry (Entry s) = (s \<noteq> [])"
| "truthyEntry (Inherited k) = True"

subsection \<open>The draft document\<close>

record large_image_info =
  li_height :: int
  li_width :: int
  li_resolution_type :: jsstring

text \<open>A field that a mode does not write (\<open>negative_prompt\<close> and \<open>seed\<close> in a blend) is \<open>None\<close>.\<close>

record core_param =
  cp_model :: tableValue
  cp_prompt :: jsstring
  cp_negative_prompt :: "jsstring option"
  cp_seed :: "nat option"
  cp_sample_strength :: jsnum
  cp_image_ratio :: int
  cp_large_image_info :: large_image_info
  cp_intelligent_ratio :: bool

record image_entry =
  im_source_from :: string
  im_platform_type :: nat
  im_name :: string
  im_image_uri :: jsval
  im_width :: nat
  im_height :: nat
  im_format :: string
  im_uri :: jsval

record ability =
  ab_name :: string
  ab_image_uri_list :: "jsval list"
  ab_image_list :: "image_entry list"
  ab_strength :: jsnum

record placeholder_info =
  ability_index :: nat

record blend =
  bl_core_param :: core_param
  bl_ability_list :: "ability list"
  bl_prompt_placeholder_info_list :: "placeholder_info list"
  bl_postedit_generate_type :: nat

datatype abilities = Generate core_param | Blend blend

record draftRequest =
  dr_root_model :: tableValue
  dr_metrics_extra :: "(string \<times> jsval) list"
  dr_min_version :: jsstring
  dr_version :: jsstring
  dr_generate_type :: string
  dr_abilities :: abilities
  dr_aid :: jsval

record pollerConfig =
  maxPollCount :: nat
  expectedItemCount :: jsnum
  poller_type :: string

subsection \<open>Log lines and calls\<close>

text \<open>One constructor for each log line of the uploader and of the image controller, with the values it prints.\<close>

datatype logmsg =
    UploadBufferStart bool
  | UploadTokenOk jsval
  | BufferInfo nat jsstring
  | ApplyRequested url
  | FetchFailedUrl url
  | FetchFailedDetail error
  | ApplyOk
  | UploadPrepared url
  | PutOk
  | UploadComplete jsval
  | BufferUploadFailed error
  | UrlUploadStart jsstring bool
  | DataUriDetected
  | Base64Detected
  | UrlUploadFailed error
  | ProcessingBuffer
  | ProcessingArrayBuffer
  | ProcessingTypedArray
  | LocalFileDetected jsstring
  | LocalFileRead nat
  | ProcessingUrl jsstring
  | NanobananaFixed
  | CompositionStart jsstring tableValue nat int int jsnum
  | CreditCheckFailed error
  | ProcessingImage nat nat
  | ImageUploaded nat nat jsval
  | ImageFailed nat nat error
  | AllImagesUploaded "jsval list"
  | CompositionSubmitted jsval
  | CompositionResult nat jsval jsval
  | CompositionNoUrls jsval
  | ItemListDump jsval
  | GenerateStart jsstring tableValue jsstring jsstring jsnum
  | CreditStatus jsnum jsnum jsnum jsnum
  | GenerateResult nat jsval jsval
  | GenerateNoUrls jsval
  | MultiStart jsnum int int jsnum
  | MultiSubmitted jsval jsnum
  | MultiResult nat jsval jsval

datatype event =
    Log level logmsg
  | GetUploadToken jsstring
  | Fetch fetchRequest
  | PathExists jsstring
  | ReadFile jsstring
  | GetCredit jsstring
  | ReceiveCredit jsstring
  | DraftGenerate jsstring draftRequest
  | NewSmartPoller pollerConfig
  | Poll jsval

type_synonym 'a run = "event list \<times> (error + 'a)"

definition ret :: "'a \<Rightarrow> 'a run" where
  "ret x = ([], Inr x)"

definition throw :: "error \<Rightarrow> 'a run" where
  "throw e = ([], Inl e)"

text \<open>The outcome of a computation that does nothing outside.\<close>

definition lift :: "error + 'a \<Rightarrow> 'a run" where
  "lift r = ([], r)"

text \<open>A call to a collaborator: the call is recorded and the world's answer is its outcome.\<close>

definition perform :: "event \<Rightarrow> error + 'a \<Rightarrow> 'a run" where
  "perform ev answer = ([ev], answer)"

definition logLine :: "level \<Rightarrow> logmsg \<Rightarrow> unit run" where
  "logLine l m = ([Log l m], Inr ())"

text \<open>\<open>await\<close> and sequencing: an error ends the run where it is raised.\<close>

definition andThen :: "'a run \<Rightarrow> ('a \<Rightarrow> 'b run) \<Rightarrow> 'b run" where
  "andThen m f =
     (case m of
        (t, Inl e) \<Rightarrow> (t, Inl e)
      | (t, Inr x) \<Rightarrow> (case f x of (t', r) \<Rightarrow> (t @ t', r)))"

text \<open>\<open>try { m } catch (e) { h e }\<close>.\<close>

definition tryCatch :: "'a run \<Rightarrow> (error \<Rightarrow> 'a run) \<Rightarrow> 'a run" where
  "tryCatch m h =
     (case m of
        (t, Inl e) \<Rightarrow> (case h e of (t', r) \<Rightarrow> (t @ t', r))
      | (t, Inr x) \<Rightarrow> (t, Inr x))"

definition trace :: "'a run \<Rightarrow> event list" where
  "trace m = fst m"

definition outcome :: "'a run \<Rightarrow> error + 'a" where
  "outcome m = snd m"

section \<open>The uploader (\<open>lib/image-uploader.ts\<close>)\<close>

text \<open>
  \<open>RegionInfo\<close> comes from the core controller, which is not among the sources; the
  uploader and the image controller read its \<open>isInternational\<close> flag only (\<open>ri_isInternational\<close>).
\<close>

record regionInfo =
  ri_isInternational :: bool
  region_rest :: jsval

text \<open>
  The collaborators that are not among the sources, as parameters: \<open>RegionUtils\<close>,
  \<open>createSignature\<close>, the helpers of \<open>util\<close>, and the runtime's SHA-256 digest (in
  hex), \<open>JSON.stringify\<close> and \<open>path\<close> functions.
\<close>

record uploaderEnv =
  getServiceId :: "regionInfo \<Rightarrow> jsval \<Rightarrow> jsval"
  getImageXUrl :: "regionInfo \<Rightarrow> jsstring"
  getAWSRegion :: "regionInfo \<Rightarrow> jsstring"
  getOrigin :: "regionInfo \<Rightarrow> jsstring"
  getRefererPath :: "regionInfo \<Rightarrow> jsstring"
  createSignature :: "string \<Rightarrow> url \<Rightarrow> (string \<times> jsval) list \<Rightarrow> jsval \<Rightarrow> jsval \<Rightarrow> jsval
                        \<Rightarrow> jsstring \<Rightarrow> jsstring \<Rightarrow> jsstring"
  calculateCRC32 :: "nat list \<Rightarrow> jsstring"
  sha256hex :: "jsstring \<Rightarrow> jsstring"
  JSON_stringify :: "jsval \<Rightarrow> jsstring"
  util :: utilEnv
  removeBASE64DataHeader :: "jsstring \<Rightarrow> jsstring"
  fileURLToPath :: "jsstring \<Rightarrow> error + jsstring"
  joinHomedir :: "jsstring \<Rightarrow> jsstring"
  path_isAbsolute :: "jsstring \<Rightarrow> bool"
  path_resolve :: "jsstring \<Rightarrow> jsstring"

text \<open>
  What the outside answers during the processing of one image: the upstream's upload
  token, the clock and the random string, the three \<open>fetch\<close> calls of the upload, the
  download of a remote image, and the file system.
\<close>

record uploadWorld =
  uw_tokenResult :: "error + jsval"
  uw_timestamp :: jsstring
  uw_randomStr :: jsstring
  uw_applyResponse :: "error + response"
  uw_uploadResponse :: "error + response"
  uw_commitTimestamp :: jsstring
  uw_commitResponse :: "error + response"
  uw_imageResponse :: "error + response"
  uw_pathExists :: "jsstring \<Rightarrow> bool"
  uw_readFile :: "jsstring \<Rightarrow> error + nat list"

record uploadToken =
  access_key_id :: jsval
  secret_access_key :: jsval
  session_token :: jsval
  actualServiceId :: jsval

text \<open>Step 1: the upload token.\<close>

definition requestUploadToken :: "uploaderEnv \<Rightarrow> uploadWorld \<Rightarrow> jsstring \<Rightarrow> regionInfo \<Rightarrow> uploadToken run" where
  "requestUploadToken E W refreshToken ri =
     andThen (logLine LInfo (UploadBufferStart (ri_isInternational ri))) (\<lambda>_.
     andThen (perform (GetUploadToken refreshToken) (uw_tokenResult W)) (\<lambda>tokenResult.
     andThen (lift (getProp tokenResult ''access_key_id'')) (\<lambda>aki.
       let sak = memberOf tokenResult ''secret_access_key'';
           st = memberOf tokenResult ''session_token'';
           service_id = (if ri_isInternational ri then memberOf tokenResult ''space_name''
                         else memberOf tokenResult ''service_id'')
       in if \<not> truthy aki \<or> \<not> truthy sak \<or> \<not> truthy st then throw UploadTokenMissing
          else
            andThen (logLine LInfo (UploadTokenOk (getServiceId E ri service_id))) (\<lambda>_.
            ret \<lparr> access_key_id = aki, secret_access_key = sak, session_token = st,
                  actualServiceId = getServiceId E ri service_id \<rparr>))))"

record uploadTarget =
  uploadAddress :: jsval
  uploadHost :: jsval
  auth :: jsval
  uploadUrl :: url

text \<open>Step 2: \<open>ApplyImageUpload\<close>, signed, and the upload address it answers.\<close>

definition applyUrlOf :: "uploaderEnv \<Rightarrow> uploadWorld \<Rightarrow> regionInfo \<Rightarrow> uploadToken \<Rightarrow> nat list \<Rightarrow> url" where
  "applyUrlOf E W ri tok imageBuffer =
     ApplyImageUploadUrl (getImageXUrl E ri) (actualServiceId tok) (length imageBuffer)
       (uw_randomStr W) (ri_isInternational ri)"

definition applyRequest :: "uploaderEnv \<Rightarrow> uploadWorld \<Rightarrow> regionInfo \<Rightarrow> uploadToken \<Rightarrow> nat list \<Rightarrow> fetchRequest" where
  "applyRequest E W ri tok imageBuffer =
     (let applyUrl = applyUrlOf E W ri tok imageBuffer;
          requestHeaders = [(''x-amz-date'', JStr (uw_timestamp W)),
                            (''x-amz-security-token'', session_token tok)];
          authorization = createSignature E ''GET'' applyUrl requestHeaders (access_key_id tok)
                            (secret_access_key tok) (session_token tok) [] (getAWSRegion E ri)
      in \<lparr> fr_url = applyUrl, fr_method = ''GET'',
           fr_headers = [(''authorization'', JStr authorization),
                         (''origin'', JStr (getOrigin E ri)),
                         (''referer'', JStr (getOrigin E ri @ str ''/ai-tool/generate'')),
                         (''x-amz-date'', JStr (uw_timestamp W)),
                         (''x-amz-security-token'', session_token tok)],
           fr_body = JUndefined \<rparr>)"

definition readUploadAddress :: "jsval \<Rightarrow> uploadTarget run" where
  "readUploadAddress applyResult =
     (let ua = optProp (optProp applyResult ''Result'') ''UploadAddress''
      in if \<not> truthy ua \<or> \<not> truthy (memberOf ua ''StoreInfos'') \<or> \<not> truthy (memberOf ua ''UploadHosts'')
         then throw (UploadAddressMissing applyResult)
         else
           let storeInfo = first (memberOf ua ''StoreInfos'');
               host = first (memberOf ua ''UploadHosts'')
           in andThen (lift (getProp storeInfo ''Auth'')) (\<lambda>a.
              andThen (logLine LInfo (UploadPrepared (UploadUrl host (memberOf storeInfo ''StoreUri'')))) (\<lambda>_.
              ret \<lparr> uploadAddress = ua, uploadHost = host, auth = a,
                    uploadUrl = UploadUrl host (memberOf storeInfo ''StoreUri'') \<rparr>)))"

definition applyImageUpload :: "uploaderEnv \<Rightarrow> uploadWorld \<Rightarrow> regionInfo \<Rightarrow> uploadToken \<Rightarrow> nat list \<Rightarrow> uploadTarget run" where
  "applyImageUpload E W ri tok imageBuffer =
     andThen (logLine LInfo (BufferInfo (length imageBuffer) (calculateCRC32 E imageBuffer))) (\<lambda>_.
     andThen (logLine LInfo (ApplyRequested (applyUrlOf E W ri tok imageBuffer))) (\<lambda>_.
     andThen (tryCatch (perform (Fetch (applyRequest E W ri tok imageBuffer)) (uw_applyResponse W))
                (\<lambda>fetchError.
                   andThen (logLine LError (FetchFailedUrl (applyUrlOf E W ri tok imageBuffer))) (\<lambda>_.
                   andThen (logLine LError (FetchFailedDetail fetchError)) (\<lambda>_.
                   throw (ApplyNetworkFailed (getImageXUrl E ri) fetchError))))) (\<lambda>applyResponse.
     andThen (if \<not> resp_ok applyResponse
              then andThen (lift (resp_text applyResponse)) (\<lambda>errorText.
                   throw (ApplyRejected (resp_status applyResponse) errorText))
              else ret ()) (\<lambda>_.
     andThen (lift (resp_json applyResponse)) (\<lambda>applyResult.
       if truthy (optProp (optProp applyResult ''ResponseMetadata'') ''Error'')
       then throw (ApplyError (optProp (optProp applyResult ''ResponseMetadata'') ''Error''))
       else andThen (logLine LInfo ApplyOk) (\<lambda>_. readUploadAddress applyResult))))))"

text \<open>Step 3: the bytes are sent to the upload host, with their CRC32.\<close>

definition putRequest :: "uploaderEnv \<Rightarrow> regionInfo \<Rightarrow> uploadTarget \<Rightarrow> nat list \<Rightarrow> fetchRequest" where
  "putRequest E ri tg imageBuffer =
     \<lparr> fr_url = uploadUrl tg, fr_method = ''POST'',
       fr_headers = [(''Authorization'', auth tg),
                     (''Content-CRC32'', JStr (calculateCRC32 E imageBuffer)),
                     (''Content-Type'', JStr (str ''application/octet-stream'')),
                     (''Origin'', JStr (getOrigin E ri)),
                     (''Referer'', JStr (getRefererPath E ri))],
       fr_body = JBuffer imageBuffer \<rparr>"

definition putImage :: "uploaderEnv \<Rightarrow> uploadWorld \<Rightarrow> regionInfo \<Rightarrow> uploadTarget \<Rightarrow> nat list \<Rightarrow> unit run" where
  "putImage E W ri tg imageBuffer =
     andThen (tryCatch (perform (Fetch (putRequest E ri tg imageBuffer)) (uw_uploadResponse W))
                (\<lambda>fetchError.
                   andThen (logLine LError (FetchFailedUrl (uploadUrl tg))) (\<lambda>_.
                   andThen (logLine LError (FetchFailedDetail fetchError)) (\<lambda>_.
                   throw (PutNetworkFailed (uploadHost tg) fetchError))))) (\<lambda>uploadResponse.
     andThen (if \<not> resp_ok uploadResponse
              then andThen (lift (resp_text uploadResponse)) (\<lambda>errorText.
                   throw (PutRejected (resp_status uploadResponse) errorText))
              else ret ()) (\<lambda>_.
     logLine LInfo PutOk))"

text \<open>
  Step 4: \<open>CommitImageUpload\<close>. The body is the JSON text of \<open>{SessionKey}\<close>; its
  SHA-256 digest is a signed header of the request.
\<close>

definition commitPayloadOf :: "uploaderEnv \<Rightarrow> uploadTarget \<Rightarrow> jsstring" where
  "commitPayloadOf E tg =
     JSON_stringify E (JObj [(str ''SessionKey'', memberOf (uploadAddress tg) ''SessionKey'')])"

definition commitRequest :: "uploaderEnv \<Rightarrow> uploadWorld \<Rightarrow> regionInfo \<Rightarrow> uploadToken \<Rightarrow> uploadTarget \<Rightarrow> fetchRequest" where
  "commitRequest E W ri tok tg =
     (let commitUrl = CommitImageUploadUrl (getImageXUrl E ri) (actualServiceId tok);
          commitTimestamp = uw_commitTimestamp W;
          commitPayload = commitPayloadOf E tg;
          payloadHash = sha256hex E commitPayload;
          commitRequestHeaders = [(''x-amz-date'', JStr commitTimestamp),
                                  (''x-amz-security-token'', session_token tok),
                                  (''x-amz-content-sha256'', JStr payloadHash)];
          commitAuthorization = createSignature E ''POST'' commitUrl commitRequestHeaders
                                  (access_key_id tok) (secret_access_key tok) (session_token tok)
                                  commitPayload (getAWSRegion E ri)
      in \<lparr> fr_url = commitUrl, fr_method = ''POST'',
           fr_headers = [(''authorization'', JStr commitAuthorization),
                         (''content-type'', JStr (str ''application/json'')),
                         (''origin'', JStr (getOrigin E ri)),
                         (''referer'', JStr (getRefererPath E ri)),
                         (''x-amz-date'', JStr commitTimestamp),
                         (''x-amz-security-token'', session_token tok),
                         (''x-amz-content-sha256'', JStr payloadHash)],
           fr_body = JStr commitPayload \<rparr>)"

definition readCommitResult :: "jsval \<Rightarrow> jsval run" where
  "readCommitResult commitResult =
     (if truthy (optProp (optProp commitResult ''ResponseMetadata'') ''Error'')
      then throw (CommitError (optProp (optProp commitResult ''ResponseMetadata'') ''Error''))
      else
        let results = optProp (optProp commitResult ''Result'') ''Results''
        in if \<not> truthy results \<or> memberOf results ''length'' = JNum (Fin 0)
           then throw (CommitResultsMissing commitResult)
           else
             let uploadResult = first results
             in andThen (lift (getProp uploadResult ''UriStatus'')) (\<lambda>uriStatus.
                if uriStatus \<noteq> JNum (Fin 2000) then throw (UriStatusAbnormal uriStatus)
                else
                  andThen (logLine LInfo (UploadComplete (memberOf uploadResult ''Uri''))) (\<lambda>_.
                  ret (memberOf uploadResult ''Uri''))))"

definition commitImageUpload :: "uploaderEnv \<Rightarrow> uploadWorld \<Rightarrow> regionInfo \<Rightarrow> uploadToken \<Rightarrow> uploadTarget \<Rightarrow> jsval run" where
  "commitImageUpload E W ri tok tg =
     andThen (tryCatch (perform (Fetch (commitRequest E W ri tok tg)) (uw_commitResponse W))
                (\<lambda>fetchError.
                   andThen (logLine LError (FetchFailedUrl (fr_url (commitRequest E W ri tok tg)))) (\<lambda>_.
                   andThen (logLine LError (FetchFailedDetail fetchError)) (\<lambda>_.
                   throw (CommitNetworkFailed (getImageXUrl E ri) fetchError))))) (\<lambda>commitResponse.
     andThen (if \<not> resp_ok commitResponse
              then andThen (lift (resp_text commitResponse)) (\<lambda>errorText.
                   throw (CommitRejected (resp_status commitResponse) errorText))
              else ret ()) (\<lambda>_.
     andThen (lift (resp_json commitResponse)) readCommitResult))"

text \<open>
  \<open>uploadImageBuffer\<close>: the four steps in order; whatever is raised on the way is
  logged and raised again.
\<close>

definition uploadImageBuffer :: "uploaderEnv \<Rightarrow> uploadWorld \<Rightarrow> nat list \<Rightarrow> jsstring \<Rightarrow> regionInfo \<Rightarrow> jsval run" where
  "uploadImageBuffer E W imageBuffer refreshToken ri =
     tryCatch
       (andThen (requestUploadToken E W refreshToken ri) (\<lambda>tok.
        andThen (applyImageUpload E W ri tok imageBuffer) (\<lambda>tg.
        andThen (putImage E W ri tg imageBuffer) (\<lambda>_.
        commitImageUpload E W ri tok tg))))
       (\<lambda>e. andThen (logLine LError (BufferUploadFailed e)) (\<lambda>_. throw e))"

definition uploadImageFromUrl :: "uploaderEnv \<Rightarrow> uploadWorld \<Rightarrow> jsstring \<Rightarrow> jsstring \<Rightarrow> regionInfo \<Rightarrow> jsval run" where
  "uploadImageFromUrl E W imageUrl refreshToken ri =
     tryCatch
       (andThen (logLine LInfo (UrlUploadStart (take 100 imageUrl) (100 < length imageUrl))) (\<lambda>_.
        let trimmed = trim imageUrl;
            normalizedBase64 = filter (\<lambda>c. \<not> isWhiteSpace c) trimmed
        in if isBASE64Data (util E) trimmed then
             andThen (logLine LInfo DataUriDetected) (\<lambda>_.
             uploadImageBuffer E W (bufferFromBase64 (util E) (removeBASE64DataHeader E trimmed))
               refreshToken ri)
           else if normalizedBase64 \<noteq> [] \<and> isBASE64 (util E) normalizedBase64 then
             andThen (logLine LInfo Base64Detected) (\<lambda>_.
             uploadImageBuffer E W (bufferFromBase64 (util E) normalizedBase64) refreshToken ri)
           else
             andThen (perform (Fetch \<lparr> fr_url = ImageUrl trimmed, fr_method = ''GET'',
                                       fr_headers = [], fr_body = JUndefined \<rparr>)
                        (uw_imageResponse W)) (\<lambda>imageResponse.
             if \<not> resp_ok imageResponse then throw (DownloadRejected (resp_status imageResponse))
             else
               andThen (lift (resp_arrayBuffer imageResponse)) (\<lambda>imageBuffer.
               uploadImageBuffer E W imageBuffer refreshToken ri))))
       (\<lambda>e. andThen (logLine LError (UrlUploadFailed e)) (\<lambda>_. throw e))"

section \<open>The image controller\<close>

subsection \<open>Constants of the controller\<close>

text \<open>
  The tables of \<open>api/consts/common.ts\<close> are not among the sources; they are parameters,
  taken to be plain objects. A table is the list of its own keys with their values, in the
  order \<open>Object.keys\<close> gives them. The model tables are read with \<open>tableGet\<close>. The
  resolution table is read by its own keys only: for a resolution or a ratio that names an
  inherited member, \<open>getResolutionParams\<close> below answers as for any other name that the
  table does not own.
\<close>

record ratioConfig =
  rc_width :: int
  rc_height :: int
  rc_ratio :: int

record constants =
  IMAGE_MODEL_MAP :: "(jsstring \<times> jsstring) list"
  IMAGE_MODEL_MAP_US :: "(jsstring \<times> jsstring) list"
  DEFAULT_MODEL :: jsstring
  RESOLUTION_OPTIONS :: "(jsstring \<times> (jsstring \<times> ratioConfig) list) list"

text \<open>
  \<open>getModel\<close> answers \<open>modelMap[model] || modelMap[DEFAULT_MODEL]\<close>: the mapped model
  name, a member that the table inherits, or \<open>undefined\<close>.
\<close>

definition getModel :: "constants \<Rightarrow> jsstring \<Rightarrow> bool \<Rightarrow> error + tableValue" where
  "getModel C model isInternational =
     (let modelMap = (if isInternational then IMAGE_MODEL_MAP_US C else IMAGE_MODEL_MAP C)
      in if isInternational \<and> \<not> truthyEntry (tableGet modelMap model)
         then Inl (IntlModelUnsupported model (map fst modelMap))
         else Inr (if truthyEntry (tableGet modelMap model) then tableGet modelMap model
                   else tableGet modelMap (DEFAULT_MODEL C)))"

definition defaultTo :: "'a option \<Rightarrow> 'a \<Rightarrow> 'a" where
  "defaultTo v d = (case v of None \<Rightarrow> d | Some x \<Rightarrow> x)"

record resolutionParams =
  p_width :: int
  p_height :: int
  p_image_ratio :: int
  p_resolution_type :: jsstring

text \<open>\<open>getResolutionParams(resolution = '2k', ratio = '1:1')\<close>.\<close>

definition getResolutionParams :: "constants \<Rightarrow> jsstring option \<Rightarrow> jsstring option \<Rightarrow> error + resolutionParams" where
  "getResolutionParams C resolution0 ratio0 =
     (let resolution = defaultTo resolution0 (str ''2k'');
          ratio = defaultTo ratio0 (str ''1:1'')
      in case map_of (RESOLUTION_OPTIONS C) resolution of
           None \<Rightarrow> Inl (ResolutionUnsupported resolution (map fst (RESOLUTION_OPTIONS C)))
         | Some resolutionGroup \<Rightarrow>
             (case map_of resolutionGroup ratio of
                None \<Rightarrow> Inl (RatioUnsupported resolution ratio (map fst resolutionGroup))
              | Some ratioConfig \<Rightarrow>
                  Inr \<lparr> p_width = rc_width ratioConfig, p_height = rc_height ratioConfig,
                        p_image_ratio = rc_ratio ratioConfig, p_resolution_type = resolution \<rparr>))"

subsection \<open>Image inputs\<close>

text \<open>\<open>ImageInput = string | Buffer | ArrayBuffer | Uint8Array\<close>, and whatever else a caller passes.\<close>

datatype imageInput =
    Buffer "nat list"
  | ArrayBuffer "nat list"
  | TypedArray "nat list"
  | StringInput jsstring
  | OtherInput jsval

definition isLetter :: "nat \<Rightarrow> bool" where
  "isLetter c = ((97 \<le> c \<and> c \<le> 122) \<or> (65 \<le> c \<and> c \<le> 90))"

definition isLocalFilePath :: "jsstring \<Rightarrow> bool" where
  "isLocalFilePath pathStr =
     (if pathStr = [] then False
      else startsWith pathStr (str ''file://'') \<or> startsWith pathStr (str ''/'')
           \<or> (case pathStr of a # b # c # _ \<Rightarrow> isLetter a \<and> b = 58 \<and> c = 92 | _ \<Rightarrow> False)
           \<or> startsWith pathStr (str ''~''))"

definition localFilePath :: "uploaderEnv \<Rightarrow> jsstring \<Rightarrow> jsstring" where
  "localFilePath E img =
     (let filePath =
            (if startsWith img (str ''file://'')
               then (case fileURLToPath E img of Inr p \<Rightarrow> p | Inl e \<Rightarrow> drop 7 img)
             else if startsWith img (str ''~'') then joinHomedir E (drop 1 img)
             else img)
      in if \<not> path_isAbsolute E filePath then path_resolve E filePath else filePath)"

definition processImageInput :: "uploaderEnv \<Rightarrow> uploadWorld \<Rightarrow> imageInput \<Rightarrow> jsstring \<Rightarrow> regionInfo \<Rightarrow> jsval run" where
  "processImageInput E W img refreshToken ri =
     (case img of
        Buffer b \<Rightarrow>
          andThen (logLine LInfo ProcessingBuffer) (\<lambda>_. uploadImageBuffer E W b refreshToken ri)
      | ArrayBuffer b \<Rightarrow>
          andThen (logLine LInfo ProcessingArrayBuffer) (\<lambda>_. uploadImageBuffer E W b refreshToken ri)
      | TypedArray b \<Rightarrow>
          andThen (logLine LInfo ProcessingTypedArray) (\<lambda>_. uploadImageBuffer E W b refreshToken ri)
      | StringInput s \<Rightarrow>
          if isLocalFilePath s then
            andThen (logLine LInfo (LocalFileDetected (localFilePath E s))) (\<lambda>_.
            andThen (perform (PathExists (localFilePath E s)) (Inr (uw_pathExists W (localFilePath E s)))) (\<lambda>found.
            if \<not> found then throw (LocalFileMissing (localFilePath E s))
            else
              andThen (perform (ReadFile (localFilePath E s)) (uw_readFile W (localFilePath E s))) (\<lambda>imageBuffer.
              andThen (logLine LInfo (LocalFileRead (length imageBuffer))) (\<lambda>_.
              uploadImageBuffer E W imageBuffer refreshToken ri))))
          else
            andThen (logLine LInfo (ProcessingUrl s)) (\<lambda>_. uploadImageFromUrl E W s refreshToken ri)
      | OtherInput v \<Rightarrow> throw ImageInputUnsupported)"

subsection \<open>Collaborators and the world of one generation call\<close>

text \<open>
  The core controller (\<open>parseRegionFromToken\<close>, \<open>getAssistantId\<close>, the credit calls,
  the upstream \<open>request\<close>), the smart poller and \<open>extractImageUrls\<close> are not among the
  sources. The pure ones are parameters; the others answer from the world. The comparison
  \<open>item_list.length > 0\<close> of an upstream value is left to the parameter \<open>lengthPositive\<close>.
\<close>

record env =
  tables :: constants
  DRAFT_VERSION :: jsstring
  DRAFT_MIN_VERSION :: jsstring
  parseRegionFromToken :: "jsstring \<Rightarrow> regionInfo"
  getAssistantId :: "regionInfo \<Rightarrow> jsval"
  extractImageUrls :: "jsval \<Rightarrow> jsstring list"
  lengthPositive :: "jsval \<Rightarrow> bool"
  uploader :: uploaderEnv

record credit =
  totalCredit :: jsnum
  giftCredit :: jsnum
  purchaseCredit :: jsnum
  vipCredit :: jsnum

record pollOutcome =
  po_status :: jsval
  po_elapsedTime :: jsval
  po_data :: jsval

record world =
  w_getCredit :: "error + credit"
  w_receiveCredit :: "error + unit"
  w_upload :: "nat \<Rightarrow> uploadWorld"
  w_random :: nat
  w_draftGenerate :: "error + jsval"
  w_poll :: "error + pollOutcome"

record options =
  o_ratio :: "jsstring option"
  o_resolution :: "jsstring option"
  o_sampleStrength :: "jsnum option"
  o_negativePrompt :: "jsstring option"

subsection \<open>Shared steps\<close>

text \<open>The resolution of a call: fixed for \<open>nanobanana\<close> (with a warning), looked up otherwise.\<close>

definition resolveSize :: "env \<Rightarrow> jsstring \<Rightarrow> jsstring option \<Rightarrow> jsstring option \<Rightarrow> resolutionParams run" where
  "resolveSize E clientModel resolution ratio =
     (if clientModel = str ''nanobanana'' then
        andThen (logLine LWarn NanobananaFixed) (\<lambda>_.
        ret \<lparr> p_width = 1024, p_height = 1024, p_image_ratio = 1, p_resolution_type = str ''2k'' \<rparr>)
      else lift (getResolutionParams (tables E) resolution ratio))"

definition draftOf :: "env \<Rightarrow> regionInfo \<Rightarrow> tableValue \<Rightarrow> (string \<times> jsval) list \<Rightarrow> string \<Rightarrow> abilities \<Rightarrow> draftRequest" where
  "draftOf E ri model metrics generate_type ab =
     \<lparr> dr_root_model = model, dr_metrics_extra = metrics,
       dr_min_version = DRAFT_MIN_VERSION E, dr_version = DRAFT_VERSION E,
       dr_generate_type = generate_type, dr_abilities = ab, dr_aid = getAssistantId E ri \<rparr>"

definition clickMetrics :: "(string \<times> jsval) list" where
  "clickMetrics = [(''promptSource'', JStr (str ''custom'')), (''generateCount'', JNum (Fin 1)),
                   (''enterFrom'', JStr (str ''click'')), (''isRegenerate'', JBool False)]"

definition templateMetrics :: "(string \<times> jsval) list" where
  "templateMetrics = [(''templateId'', JStr []), (''generateCount'', JNum (Fin 1)),
                      (''promptSource'', JStr (str ''custom'')), (''templateSource'', JStr []),
                      (''lastRequestId'', JStr []), (''originRequestId'', JStr [])]"

text \<open>\<open>finalTaskInfo.item_list || []\<close>.\<close>

definition itemListOf :: "jsval \<Rightarrow> error + jsval" where
  "itemListOf finalTaskInfo =
     (case getProp finalTaskInfo ''item_list'' of
        Inl e \<Rightarrow> Inl e
      | Inr l \<Rightarrow> Inr (if truthy l then l else JArr []))"

subsection \<open>\<open>generateImageComposition\<close>\<close>

text \<open>The upload loop: the images in order, one at a time; the first failure ends the call.\<close>

fun uploadImages :: "env \<Rightarrow> world \<Rightarrow> jsstring \<Rightarrow> regionInfo \<Rightarrow> nat \<Rightarrow> nat \<Rightarrow> imageInput list \<Rightarrow> jsval list \<Rightarrow> jsval list run" where
  "uploadImages E W refreshToken ri imageCount i [] uploadedImageIds = ret uploadedImageIds"
| "uploadImages E W refreshToken ri imageCount i (img # rest) uploadedImageIds =
     andThen
       (tryCatch
          (andThen (logLine LInfo (ProcessingImage (i + 1) imageCount)) (\<lambda>_.
           andThen (processImageInput (uploader E) (w_upload W i) img refreshToken ri) (\<lambda>imageId.
           andThen (logLine LInfo (ImageUploaded (i + 1) imageCount imageId)) (\<lambda>_.
           ret imageId))))
          (\<lambda>e. andThen (logLine LError (ImageFailed (i + 1) imageCount e)) (\<lambda>_.
                throw (ImageUploadFailed e))))
       (\<lambda>imageId. uploadImages E W refreshToken ri imageCount (i + 1) rest (uploadedImageIds @ [imageId]))"

declare uploadImages.simps [simp del]

definition abilityOf :: "jsnum \<Rightarrow> jsval \<Rightarrow> ability" where
  "abilityOf sampleStrength imageId =
     \<lparr> ab_name = ''byte_edit'', ab_image_uri_list = [imageId],
       ab_image_list = [\<lparr> im_source_from = ''upload'', im_platform_type = 1, im_name = [],
                          im_image_uri = imageId, im_width = 0, im_height = 0, im_format = [],
                          im_uri = imageId \<rparr>],
       ab_strength = sampleStrength \<rparr>"

definition blendOf :: "tableValue \<Rightarrow> jsstring \<Rightarrow> jsnum \<Rightarrow> resolutionParams \<Rightarrow> jsval list \<Rightarrow> blend" where
  "blendOf model prompt sampleStrength p uploadedImageIds =
     \<lparr> bl_core_param =
         \<lparr> cp_model = model, cp_prompt = str ''##'' @ prompt, cp_negative_prompt = None,
           cp_seed = None, cp_sample_strength = sampleStrength, cp_image_ratio = p_image_ratio p,
           cp_large_image_info = \<lparr> li_height = p_height p, li_width = p_width p,
                                       li_resolution_type = p_resolution_type p \<rparr>,
           cp_intelligent_ratio = False \<rparr>,
       bl_ability_list = map (abilityOf sampleStrength) uploadedImageIds,
       bl_prompt_placeholder_info_list =
         map (\<lambda>index. \<lparr> ability_index = index \<rparr>) [0 ..< length uploadedImageIds],
       bl_postedit_generate_type = 0 \<rparr>"

text \<open>The credit check of the composition: whatever it raises is logged and dropped.\<close>

definition checkCreditQuietly :: "world \<Rightarrow> jsstring \<Rightarrow> unit run" where
  "checkCreditQuietly W refreshToken =
     tryCatch
       (andThen (perform (GetCredit refreshToken) (w_getCredit W)) (\<lambda>c.
        if num_le (totalCredit c) 0 then perform (ReceiveCredit refreshToken) (w_receiveCredit W)
        else ret ()))
       (\<lambda>e. logLine LWarn (CreditCheckFailed e))"

text \<open>From the answer of \<open>draft/generate\<close> to the URLs: the history id, the poller, the items.\<close>

definition awaitComposition :: "env \<Rightarrow> world \<Rightarrow> jsval \<Rightarrow> jsstring list run" where
  "awaitComposition E W response =
     andThen (lift (getProp response ''aigc_data'')) (\<lambda>aigc_data.
       let historyId = optProp aigc_data ''history_record_id''
       in if \<not> truthy historyId then throw RecordIdMissing
          else
            andThen (logLine LInfo (CompositionSubmitted historyId)) (\<lambda>_.
            andThen (perform (NewSmartPoller \<lparr> maxPollCount = 900, expectedItemCount = Fin 1,
                                                 poller_type = ''image'' \<rparr>) (Inr ())) (\<lambda>_.
            andThen (perform (Poll historyId) (w_poll W)) (\<lambda>po.
            andThen (lift (itemListOf (po_data po))) (\<lambda>item_list.
              let resultImageUrls = extractImageUrls E item_list
              in andThen (logLine LInfo (CompositionResult (length resultImageUrls)
                                           (po_elapsedTime po) (po_status po))) (\<lambda>_.
                 andThen (if length resultImageUrls = 0 \<and> lengthPositive E item_list
                          then andThen (logLine LError (CompositionNoUrls (memberOf item_list ''length''))) (\<lambda>_.
                               logLine LError (ItemListDump item_list))
                          else ret ()) (\<lambda>_.
                 ret resultImageUrls)))))))"

definition generateImageComposition :: "env \<Rightarrow> world \<Rightarrow> jsstring \<Rightarrow> jsstring \<Rightarrow> imageInput list \<Rightarrow> options \<Rightarrow> jsstring \<Rightarrow> jsstring list run" where
  "generateImageComposition E W clientModel prompt images opts refreshToken =
     (let ratio = defaultTo (o_ratio opts) (str ''1:1'');
          resolution = defaultTo (o_resolution opts) (str ''2k'');
          sampleStrength = defaultTo (o_sampleStrength opts) (Fin (1 / 2));
          regionInfo = parseRegionFromToken E refreshToken
      in andThen (lift (getModel (tables E) clientModel (ri_isInternational regionInfo))) (\<lambda>model.
         andThen (resolveSize E clientModel (Some resolution) (Some ratio)) (\<lambda>p.
         andThen (logLine LInfo (CompositionStart clientModel model (length images)
                                   (p_width p) (p_height p) sampleStrength)) (\<lambda>_.
         andThen (checkCreditQuietly W refreshToken) (\<lambda>_.
         andThen (uploadImages E W refreshToken regionInfo (length images) 0 images []) (\<lambda>uploadedImageIds.
         andThen (logLine LInfo (AllImagesUploaded uploadedImageIds)) (\<lambda>_.
         andThen (perform (DraftGenerate refreshToken
                             (draftOf E regionInfo model clickMetrics ''blend''
                                (Blend (blendOf model prompt sampleStrength p uploadedImageIds))))
                    (w_draftGenerate W)) (awaitComposition E W))))))))"

subsection \<open>\<open>generateImages\<close>\<close>

fun str_includes :: "jsstring \<Rightarrow> jsstring \<Rightarrow> bool" where
  "str_includes [] p = (p = [])"
| "str_includes (c # cs) p = (startsWith (c # cs) p \<or> str_includes cs p)"

text \<open>
  \<open>prompt.match(/(\d+)\<close>\<open>U+5F20\<close>\<open>/)\<close>: the leftmost place where a run of digits begins
  that is followed at once by the character U+5F20 (code unit 24352); the captured group
  is the whole run. (From a place inside a run the match cannot begin earlier than from
  the start of the run, and a shorter run is followed by a digit.)
\<close>

fun matchImageCount :: "jsstring \<Rightarrow> jsstring option" where
  "matchImageCount [] = None"
| "matchImageCount (c # cs) =
     (if takeWhile isDigit (c # cs) \<noteq> [] \<and> take 1 (dropWhile isDigit (c # cs)) = [24352]
      then Some (takeWhile isDigit (c # cs))
      else matchImageCount cs)"

text \<open>The keywords are U+8FDE U+7EED, U+7ED8 U+672C and U+6545 U+4E8B.\<close>

definition isJimeng40MultiImage :: "jsstring \<Rightarrow> jsstring \<Rightarrow> bool" where
  "isJimeng40MultiImage clientModel prompt =
     (clientModel = str ''jimeng-4.0''
      \<and> (str_includes prompt [36830, 32493] \<or> str_includes prompt [32472, 26412]
           \<or> str_includes prompt [25925, 20107] \<or> matchImageCount prompt \<noteq> None))"

definition targetImageCountOf :: "jsstring \<Rightarrow> jsnum" where
  "targetImageCountOf prompt =
     (case matchImageCount prompt of Some digits \<Rightarrow> parseInt digits | None \<Rightarrow> Fin 4)"

definition generateCoreParam :: "world \<Rightarrow> tableValue \<Rightarrow> jsstring \<Rightarrow> jsstring \<Rightarrow> jsnum \<Rightarrow> resolutionParams \<Rightarrow> core_param" where
  "generateCoreParam W model prompt negativePrompt sampleStrength p =
     \<lparr> cp_model = model, cp_prompt = prompt, cp_negative_prompt = Some negativePrompt,
       cp_seed = Some (w_random W + 2500000000), cp_sample_strength = sampleStrength,
       cp_image_ratio = p_image_ratio p,
       cp_large_image_info = \<lparr> li_height = p_height p, li_width = p_width p,
                                   li_resolution_type = p_resolution_type p \<rparr>,
       cp_intelligent_ratio = False \<rparr>"

definition generateJimeng40MultiImages :: "env \<Rightarrow> world \<Rightarrow> jsstring \<Rightarrow> jsstring \<Rightarrow> options \<Rightarrow> jsstring \<Rightarrow> jsstring list run" where
  "generateJimeng40MultiImages E W clientModel prompt opts refreshToken =
     (let ratio = defaultTo (o_ratio opts) (str ''1:1'');
          resolution = defaultTo (o_resolution opts) (str ''2k'');
          sampleStrength = defaultTo (o_sampleStrength opts) (Fin (1 / 2));
          negativePrompt = defaultTo (o_negativePrompt opts) [];
          regionInfo = parseRegionFromToken E refreshToken
      in andThen (lift (getModel (tables E) clientModel (ri_isInternational regionInfo))) (\<lambda>model.
         andThen (lift (getResolutionParams (tables E) (Some resolution) (Some ratio))) (\<lambda>p.
         andThen (logLine LInfo (MultiStart (targetImageCountOf prompt) (p_width p) (p_height p)
                                   sampleStrength)) (\<lambda>_.
         andThen (perform (DraftGenerate refreshToken
                             (draftOf E regionInfo model templateMetrics ''generate''
                                (Generate (generateCoreParam W model prompt negativePrompt
                                             sampleStrength p))))
                    (w_draftGenerate W)) (\<lambda>response.
         andThen (lift (getProp response ''aigc_data'')) (\<lambda>aigc_data.
           let historyId = optProp aigc_data ''history_record_id''
           in if \<not> truthy historyId then throw RecordIdMissing
              else
                andThen (logLine LInfo (MultiSubmitted historyId (targetImageCountOf prompt))) (\<lambda>_.
                andThen (perform (NewSmartPoller \<lparr> maxPollCount = 600,
                                     expectedItemCount = targetImageCountOf prompt,
                                     poller_type = ''image'' \<rparr>) (Inr ())) (\<lambda>_.
                andThen (perform (Poll historyId) (w_poll W)) (\<lambda>po.
                andThen (lift (itemListOf (po_data po))) (\<lambda>item_list.
                andThen (logLine LInfo (MultiResult (length (extractImageUrls E item_list))
                                          (po_elapsedTime po) (po_status po))) (\<lambda>_.
                ret (extractImageUrls E item_list))))))))))))"

text \<open>
  \<open>(finalTaskInfo?.pre_gen_item_ids ?? []).map(...)\<close>: the ids are not used, but
  \<open>map\<close> exists on an array only.
\<close>

fun preGenItemIds :: "jsval \<Rightarrow> error + unit" where
  "preGenItemIds JUndefined = Inr ()"
| "preGenItemIds JNull = Inr ()"
| "preGenItemIds (JArr xs) = Inr ()"
| "preGenItemIds _ = Inl TypeError"

definition awaitGeneration :: "env \<Rightarrow> world \<Rightarrow> jsval \<Rightarrow> jsstring list run" where
  "awaitGeneration E W response =
     andThen (lift (getProp response ''aigc_data'')) (\<lambda>aigc_data.
     andThen (lift (getProp aigc_data ''history_record_id'')) (\<lambda>historyId.
       if \<not> truthy historyId then throw RecordIdMissing
       else
         andThen (perform (NewSmartPoller \<lparr> maxPollCount = 900, expectedItemCount = Fin 4,
                              poller_type = ''image'' \<rparr>) (Inr ())) (\<lambda>_.
         andThen (perform (Poll historyId) (w_poll W)) (\<lambda>po.
         andThen (lift (itemListOf (po_data po))) (\<lambda>item_list.
         andThen (lift (preGenItemIds (optProp (po_data po) ''pre_gen_item_ids''))) (\<lambda>_.
         andThen (logLine LInfo (GenerateResult (length (extractImageUrls E item_list))
                                   (po_elapsedTime po) (po_status po))) (\<lambda>_.
         andThen (if length (extractImageUrls E item_list) = 0
                  then andThen (logLine LError (GenerateNoUrls (memberOf item_list ''length''))) (\<lambda>_.
                       logLine LError (ItemListDump item_list))
                  else ret ()) (\<lambda>_.
         ret (extractImageUrls E item_list)))))))))"

definition generateImagesInternal :: "env \<Rightarrow> world \<Rightarrow> jsstring \<Rightarrow> jsstring \<Rightarrow> options \<Rightarrow> jsstring \<Rightarrow> jsstring list run" where
  "generateImagesInternal E W clientModel prompt opts refreshToken =
     (let sampleStrength = defaultTo (o_sampleStrength opts) (Fin (1 / 2));
          negativePrompt = defaultTo (o_negativePrompt opts) [];
          regionInfo = parseRegionFromToken E refreshToken
      in andThen (lift (getModel (tables E) clientModel (ri_isInternational regionInfo))) (\<lambda>model.
         andThen (resolveSize E clientModel (o_resolution opts) (o_ratio opts)) (\<lambda>p.
         andThen (perform (GetCredit refreshToken) (w_getCredit W)) (\<lambda>c.
         andThen (if num_le (totalCredit c) 0
                  then perform (ReceiveCredit refreshToken) (w_receiveCredit W)
                  else ret ()) (\<lambda>_.
         andThen (logLine LInfo (CreditStatus (totalCredit c) (giftCredit c) (purchaseCredit c)
                                   (vipCredit c))) (\<lambda>_.
         if isJimeng40MultiImage clientModel prompt then
           generateJimeng40MultiImages E W clientModel prompt
             \<lparr> o_ratio = o_ratio opts, o_resolution = o_resolution opts,
               o_sampleStrength = Some sampleStrength, o_negativePrompt = Some negativePrompt \<rparr>
             refreshToken
         else
           andThen (perform (DraftGenerate refreshToken
                               (draftOf E regionInfo model clickMetrics ''generate''
                                  (Generate (generateCoreParam W model prompt negativePrompt
                                               sampleStrength p))))
                      (w_draftGenerate W)) (awaitGeneration E W)))))))"

definition generateImages :: "env \<Rightarrow> world \<Rightarrow> jsstring \<Rightarrow> jsstring \<Rightarrow> options \<Rightarrow> jsstring \<Rightarrow> jsstring list run" where
  "generateImages E W clientModel prompt opts refreshToken =
     (let ratio = defaultTo (o_ratio opts) (str ''1:1'');
          resolution = defaultTo (o_resolution opts) (str ''2k'');
          sampleStrength = defaultTo (o_sampleStrength opts) (Fin (1 / 2));
          negativePrompt = defaultTo (o_negativePrompt opts) [];
          regionInfo = parseRegionFromToken E refreshToken
      in andThen (lift (getModel (tables E) clientModel (ri_isInternational regionInfo))) (\<lambda>model.
         andThen (logLine LInfo (GenerateStart clientModel model resolution ratio sampleStrength)) (\<lambda>_.
         generateImagesInternal E W clientModel prompt
           \<lparr> o_ratio = Some ratio, o_resolution = Some resolution,
             o_sampleStrength = Some sampleStrength, o_negativePrompt = Some negativePrompt \<rparr>
           refreshToken)))"

section \<open>What a run did\<close>

fun draftsOf :: "event list \<Rightarrow> draftRequest list" where
  "draftsOf [] = []"
| "draftsOf (DraftGenerate tok d # t) = d # draftsOf t"
| "draftsOf (_ # t) = draftsOf t"

fun pollersOf :: "event list \<Rightarrow> pollerConfig list" where
  "pollersOf [] = []"
| "pollersOf (NewSmartPoller c # t) = c # pollersOf t"
| "pollersOf (_ # t) = pollersOf t"

fun fetchesOf :: "event list \<Rightarrow> fetchRequest list" where
  "fetchesOf [] = []"
| "fetchesOf (Fetch r # t) = r # fetchesOf t"
| "fetchesOf (_ # t) = fetchesOf t"

fun isCommitImageUpload :: "url \<Rightarrow> bool" where
  "isCommitImageUpload (CommitImageUploadUrl h sid) = True"
| "isCommitImageUpload _ = False"

fun coreParamOf :: "draftRequest \<Rightarrow> core_param" where
  "coreParamOf d = (case dr_abilities d of Generate cp \<Rightarrow> cp | Blend b \<Rightarrow> bl_core_param b)"

fun abilityListOf :: "draftRequest \<Rightarrow> ability list" where
  "abilityListOf d = (case dr_abilities d of Generate cp \<Rightarrow> [] | Blend b \<Rightarrow> bl_ability_list b)"

fun placeholdersOf :: "draftRequest \<Rightarrow> placeholder_info list" where
  "placeholdersOf d =
     (case dr_abilities d of Generate cp \<Rightarrow> [] | Blend b \<Rightarrow> bl_prompt_placeholder_info_list b)"

text \<open>
  The first result of a commit answer and its status, as \<open>uploadImageBuffer\<close> reads
  them: \<open>commitResult.Result.Results[0].UriStatus\<close>.
\<close>

declare coreParamOf.simps [simp del] abilityListOf.simps [simp del] placeholdersOf.simps [simp del]

definition firstUriStatus :: "jsval \<Rightarrow> jsval" where
  "firstUriStatus commitResult =
     memberOf (first (optProp (optProp commitResult ''Result'') ''Results'')) ''UriStatus''"

section \<open>A sample environment\<close>

text \<open>
  Concrete collaborators and answers on which the theorems below are exercised: a
  domestic token, two model tables, one resolution group, and an upstream that accepts
  every step of an upload and answers the commit with a given status.
\<close>

definition sampleTables :: constants where
  "sampleTables =
     \<lparr> IMAGE_MODEL_MAP = [(str ''jimeng-4.0'', str ''high_aes_general_v40''),
                           (str ''jimeng-3.0'', str ''high_aes_general_v30l'')],
       IMAGE_MODEL_MAP_US = [(str ''nanobanana'', str ''external_model_gemini_flash_image_v25'')],
       DEFAULT_MODEL = str ''jimeng-4.0'',
       RESOLUTION_OPTIONS =
         [(str ''2k'', [(str ''1:1'', \<lparr> rc_width = 2048, rc_height = 2048, rc_ratio = 1 \<rparr>),
                        (str ''16:9'', \<lparr> rc_width = 2560, rc_height = 1440, rc_ratio = 3 \<rparr>)])] \<rparr>"

definition sampleUploader :: uploaderEnv where
  "sampleUploader =
     \<lparr> getServiceId = (\<lambda>ri sid. sid),
       getImageXUrl = (\<lambda>ri. str ''https://imagex.bytedanceapi.com''),
       getAWSRegion = (\<lambda>ri. str ''cn-north-1''),
       getOrigin = (\<lambda>ri. str ''https://jimeng.jianying.com''),
       getRefererPath = (\<lambda>ri. str ''https://jimeng.jianying.com/ai-tool/generate''),
       createSignature = (\<lambda>method u hs aki sak st payload awsRegion. str ''AWS4-HMAC-SHA256 '' @ payload),
       calculateCRC32 = (\<lambda>b. str ''0badf00d''),
       sha256hex = (\<lambda>payload. str ''sha256:'' @ payload),
       JSON_stringify = (\<lambda>v. str ''{SessionKey}''),
       util = \<lparr> isBASE64Data = (\<lambda>s. False), isBASE64 = (\<lambda>s. False), bufferFromBase64 = (\<lambda>s. s) \<rparr>,
       removeBASE64DataHeader = (\<lambda>s. s),
       fileURLToPath = (\<lambda>s. Inr (drop 7 s)),
       joinHomedir = (\<lambda>s. str ''/root'' @ s),
       path_isAbsolute = (\<lambda>s. take 1 s = str ''/''),
       path_resolve = (\<lambda>s. str ''/app/'' @ s) \<rparr>"

definition sampleRegion :: regionInfo where
  "sampleRegion = \<lparr> ri_isInternational = False, region_rest = JStr (str ''cn'') \<rparr>"

definition sampleEnv :: env where
  "sampleEnv =
     \<lparr> tables = sampleTables, DRAFT_VERSION = str ''3.2.9'', DRAFT_MIN_VERSION = str ''3.0.2'',
       parseRegionFromToken = (\<lambda>t. sampleRegion),
       getAssistantId = (\<lambda>ri. JNum (Fin 513695)),
       extractImageUrls = (\<lambda>l. map string_of (array_of l)),
       lengthPositive = (\<lambda>l. array_of l \<noteq> []),
       uploader = sampleUploader \<rparr>"

definition sampleResponse :: "jsval \<Rightarrow> response" where
  "sampleResponse j =
     \<lparr> resp_ok = True, resp_status = JNum (Fin 200), resp_text = Inr [], resp_json = Inr j,
       resp_arrayBuffer = Inr [] \<rparr>"

definition sampleCommitResult :: "rat \<Rightarrow> jsstring \<Rightarrow> jsval" where
  "sampleCommitResult status uri =
     JObj [(str ''Result'',
            JObj [(str ''Results'',
                   JArr [JObj [(str ''Uri'', JStr uri), (str ''UriStatus'', JNum (Fin status))]])])]"

definition sampleUploadWorld :: "rat \<Rightarrow> jsstring \<Rightarrow> uploadWorld" where
  "sampleUploadWorld status uri =
     \<lparr> uw_tokenResult =
         Inr (JObj [(str ''access_key_id'', JStr (str ''AK'')),
                    (str ''secret_access_key'', JStr (str ''SK'')),
                    (str ''session_token'', JStr (str ''ST'')),
                    (str ''service_id'', JStr (str ''tb4s082cfz''))]),
       uw_timestamp = str ''20261103T094600Z'',
       uw_randomStr = str ''k3j9x0a1bq'',
       uw_applyResponse =
         Inr (sampleResponse
           (JObj [(str ''Result'',
              JObj [(str ''UploadAddress'',
                 JObj [(str ''StoreInfos'',
                          JArr [JObj [(str ''StoreUri'', JStr uri), (str ''Auth'', JStr (str ''SpaceKey''))]]),
                       (str ''UploadHosts'', JArr [JStr (str ''tos-lf-x.snssdk.com'')]),
                       (str ''SessionKey'', JStr (str ''session-key''))])])])),
       uw_uploadResponse = Inr (sampleResponse JNull),
       uw_commitTimestamp = str ''20261103T094601Z'',
       uw_commitResponse = Inr (sampleResponse (sampleCommitResult status uri)),
       uw_imageResponse = Inr (sampleResponse JNull),
       uw_pathExists = (\<lambda>p. False),
       uw_readFile = (\<lambda>p. Inl (External (str ''ENOENT''))) \<rparr>"

text \<open>The image at index \<open>i\<close> is stored under \<open>img\<close> followed by the digit \<open>i\<close>; its commit answers \<open>status i\<close>.\<close>

definition sampleWorld :: "(nat \<Rightarrow> rat) \<Rightarrow> world" where
  "sampleWorld status =
     \<lparr> w_getCredit = Inr \<lparr> totalCredit = Fin 60, giftCredit = Fin 60, purchaseCredit = Fin 0,
                           vipCredit = Fin 0 \<rparr>,
       w_receiveCredit = Inr (),
       w_upload = (\<lambda>i. sampleUploadWorld (status i) (str ''img'' @ [48 + i])),
       w_random = 7,
       w_draftGenerate =
         Inr (JObj [(str ''aigc_data'', JObj [(str ''history_record_id'', JStr (str ''h1''))])]),
       w_poll = Inr \<lparr> po_status = JNum (Fin 50), po_elapsedTime = JNum (Fin 12),
                       po_data = JObj [(str ''item_list'', JArr [JStr (str ''https://p/1.webp'')])] \<rparr> \<rparr>"

definition sampleOptions :: options where
  "sampleOptions =
     \<lparr> o_ratio = Some (str ''21:9''), o_resolution = Some (str ''4k''),
       o_sampleStrength = None, o_negativePrompt = None \<rparr>"

section \<open>Validation of the video route\<close>







lemma validateVideoRequest_ok_iff:
  "validateVideoRequest r = Inr () \<longleftrightarrow>
     optionalString (field (body r) ''model'') \<and> isString (field (body r) ''prompt'')
     \<and> optionalString (field (body r) ''ratio'') \<and> optionalString (field (body r) ''resolution'')
     \<and> durationChecker (isMultiPart r) (field (body r) ''duration'')
     \<and> pathsChecker (field (body r) ''file_paths'') \<and> pathsChecker (field (body r) ''filePaths'')
     \<and> optionalString (field (body r) ''response_format'')
     \<and> isString (header r ''authorization'')"
  unfolding validateVideoRequest_def validate_def by (simp split: sum.splits)


lemma validateVideoRequest_duration:
  "validateVideoRequest r = Inl (ParamsInvalid ''body.duration'')
     \<Longrightarrow> \<not> durationChecker (isMultiPart r) (field (body r) ''duration'')"
  unfolding validateVideoRequest_def validate_def by (simp split: sum.splits if_splits)




text \<open>
  C10. When the route reaches \<open>generateVideo\<close>, both \<open>file_paths\<close> and
  \<open>filePaths\<close> have passed validation (each absent or an array of at most two entries).
  A non-empty \<open>filePaths\<close> is what is forwarded, whatever \<open>file_paths\<close> holds;
  \<open>file_paths\<close> is forwarded only when \<open>filePaths\<close> is absent or empty.
\<close>

theorem filePaths_precedence:
  assumes "videoGenerations E r = Inr call"
  shows "(field (body r) ''filePaths'' = JUndefined \<or> (\<exists>fp. field (body r) ''filePaths'' = JArr fp \<and> length fp \<le> 2))
     \<and> (field (body r) ''file_paths'' = JUndefined \<or> (\<exists>fp. field (body r) ''file_paths'' = JArr fp \<and> length fp \<le> 2))
     \<and> (\<forall>fp. field (body r) ''filePaths'' = JArr fp \<and> fp \<noteq> [] \<longrightarrow> gv_filePaths call = fp)
     \<and> (field (body r) ''filePaths'' = JUndefined \<or> field (body r) ''filePaths'' = JArr []
          \<longrightarrow> gv_filePaths call = array_of (field (body r) ''file_paths''))"
proof -
  from assms have ok: "validateVideoRequest r = Inr ()"
    by (cases "validateVideoRequest r") (simp_all add: videoGenerations_def)
  then have p1: "pathsChecker (field (body r) ''filePaths'')" and p2: "pathsChecker (field (body r) ''file_paths'')"
    by (simp_all add: validateVideoRequest_ok_iff)
  have shape: "\<And>v. pathsChecker v \<Longrightarrow> v = JUndefined \<or> (\<exists>fp. v = JArr fp \<and> length fp \<le> 2)"
    subgoal for v by (cases v) (simp_all add: pathsChecker_def)
    done
  from assms ok have g: "gv_filePaths call =
      finalFilePaths (array_of (withDefault (field (body r) ''filePaths'') (JArr [])))
                     (array_of (withDefault (field (body r) ''file_paths'') (JArr [])))"
    by (auto simp: videoGenerations_def Let_def split: if_splits sum.splits)
  have a3: "\<forall>fp. field (body r) ''filePaths'' = JArr fp \<and> fp \<noteq> [] \<longrightarrow> gv_filePaths call = fp"
    using g by (simp add: finalFilePaths_def withDefault_def)
  have a4: "field (body r) ''filePaths'' = JUndefined \<or> field (body r) ''filePaths'' = JArr []
          \<longrightarrow> gv_filePaths call = array_of (field (body r) ''file_paths'')"
    using g shape [OF p2] by (auto simp: finalFilePaths_def withDefault_def)
  from shape [OF p1] shape [OF p2] a3 a4 show ?thesis by blast
qed

theorem filePaths_precedence_witness:
  "\<exists>call. videoGenerations
       \<lparr> tokenSplit = (\<lambda>a. Inr [a]), sampleIndex = 0, DEFAULT_VIDEO_MODEL = str ''jimeng-video-3.0'' \<rparr>
       \<lparr> headers = [(str ''authorization'', str ''Bearer t'')],
         body = [(str ''prompt'', JStr (str ''fox'')),
                 (str ''file_paths'', JArr [JStr (str ''a.png'')]),
                 (str ''filePaths'', JArr [JStr (str ''b.png'')])],
         files = None \<rparr> = Inr call
     \<and> gv_filePaths call = [JStr (str ''b.png'')]"
proof -
  let ?E = "\<lparr> tokenSplit = (\<lambda>a. Inr [a]), sampleIndex = 0, DEFAULT_VIDEO_MODEL = str ''jimeng-video-3.0'' \<rparr>"
  let ?r = "\<lparr> headers = [(str ''authorization'', str ''Bearer t'')],
         body = [(str ''prompt'', JStr (str ''fox'')),
                 (str ''file_paths'', JArr [JStr (str ''a.png'')]),
                 (str ''filePaths'', JArr [JStr (str ''b.png'')])],
         files = None \<rparr>"
  have v: "validateVideoRequest ?r = Inr ()"
    by (simp add: validateVideoRequest_ok_iff field_def header_def str_def optionalString_def
        pathsChecker_def durationChecker_def)
  obtain call where c: "videoGenerations ?E ?r = Inr call"
    using v by (simp add: videoGenerations_def Let_def)
  have f: "field (body ?r) ''filePaths'' = JArr [JStr (str ''b.png'')]"
    by (simp add: field_def str_def)
  from filePaths_precedence [OF c] f have "gv_filePaths call = [JStr (str ''b.png'')]"
    by blast
  with c show ?thesis by blast
qed

section \<open>Model lookup\<close>

lemma tableGet_own: "map_of t k = Some v \<Longrightarrow> tableGet t k = Entry v"
  by (simp add: tableGet_def)

lemma tableGet_inherited:
  "map_of t k = None \<Longrightarrow> k \<in> set objectPrototypeKeys \<Longrightarrow> tableGet t k = Inherited k"
  by (simp add: tableGet_def)

lemma tableGet_absent:
  "map_of t k = None \<Longrightarrow> k \<notin> set objectPrototypeKeys \<Longrightarrow> tableGet t k = Absent"
  by (simp add: tableGet_def)

lemma tableGet_Absent_iff:
  "tableGet t k = Absent \<longleftrightarrow> map_of t k = None \<and> k \<notin> set objectPrototypeKeys"
  by (simp add: tableGet_def split: option.splits)

text \<open>
  What \<open>getModel\<close> does with a name under which the selected table answers
  \<open>undefined\<close>, that is, a name that the table neither owns nor inherits: on an
  international token it raises the error that carries the name and the keys of the
  table, on a domestic token it answers the table's entry for the default model. An
  answer on an international token is always what the table answers under the name
  itself, and on a domestic token \<open>getModel\<close> never raises.
\<close>

lemma getModel_absent:
  "(tableGet (IMAGE_MODEL_MAP_US C) m = Absent
      \<longrightarrow> getModel C m True = Inl (IntlModelUnsupported m (map fst (IMAGE_MODEL_MAP_US C))))
   \<and> (tableGet (IMAGE_MODEL_MAP C) m = Absent
      \<longrightarrow> getModel C m False = Inr (tableGet (IMAGE_MODEL_MAP C) (DEFAULT_MODEL C)))
   \<and> (getModel C m True = Inr v \<longrightarrow> v = tableGet (IMAGE_MODEL_MAP_US C) m \<and> truthyEntry v)
   \<and> (\<forall>e. getModel C m False \<noteq> Inl e)"
  by (auto simp: getModel_def Let_def split: if_splits)

text \<open>
  C6. A model name is absent from a table when the table does not own it. For such a
  name that is one of the twelve members of \<open>Object.prototype\<close> (\<open>constructor\<close>,
  \<open>toString\<close>, \<open>__proto__\<close>, ...), \<open>modelMap[model]\<close> is the inherited member, which is
  truthy: on an international token \<open>getModel\<close> raises no error, and on a domestic token
  it answers the inherited member, not the table's entry for the default model.
\<close>

theorem getModel_inherited_name:
  "(m \<in> set objectPrototypeKeys \<and> map_of (IMAGE_MODEL_MAP_US C) m = None
      \<longrightarrow> getModel C m True = Inr (Inherited m))
   \<and> (m \<in> set objectPrototypeKeys \<and> map_of (IMAGE_MODEL_MAP C) m = None
      \<longrightarrow> getModel C m False = Inr (Inherited m))"
  by (simp add: getModel_def Let_def tableGet_def)

theorem getModel_inherited_name_witness:
  "str ''constructor'' \<in> set objectPrototypeKeys
   \<and> map_of (IMAGE_MODEL_MAP_US
       \<lparr> IMAGE_MODEL_MAP = [(str ''jimeng-4.0'', str ''high_aes_general_v40'')],
         IMAGE_MODEL_MAP_US = [(str ''nanobanana'', str ''external_model_gemini_flash_image_v25'')],
         DEFAULT_MODEL = str ''jimeng-4.0'', RESOLUTION_OPTIONS = [] \<rparr>) (str ''constructor'') = None
   \<and> getModel
       \<lparr> IMAGE_MODEL_MAP = [(str ''jimeng-4.0'', str ''high_aes_general_v40'')],
         IMAGE_MODEL_MAP_US = [(str ''nanobanana'', str ''external_model_gemini_flash_image_v25'')],
         DEFAULT_MODEL = str ''jimeng-4.0'', RESOLUTION_OPTIONS = [] \<rparr> (str ''constructor'') True
       = Inr (Inherited (str ''constructor''))
   \<and> map_of (IMAGE_MODEL_MAP
       \<lparr> IMAGE_MODEL_MAP = [(str ''jimeng-4.0'', str ''high_aes_general_v40'')],
         IMAGE_MODEL_MAP_US = [(str ''nanobanana'', str ''external_model_gemini_flash_image_v25'')],
         DEFAULT_MODEL = str ''jimeng-4.0'', RESOLUTION_OPTIONS = [] \<rparr>) (str ''constructor'') = None
   \<and> getModel
       \<lparr> IMAGE_MODEL_MAP = [(str ''jimeng-4.0'', str ''high_aes_general_v40'')],
         IMAGE_MODEL_MAP_US = [(str ''nanobanana'', str ''external_model_gemini_flash_image_v25'')],
         DEFAULT_MODEL = str ''jimeng-4.0'', RESOLUTION_OPTIONS = [] \<rparr> (str ''constructor'') False
       = Inr (Inherited (str ''constructor''))
   \<and> tableGet (IMAGE_MODEL_MAP
       \<lparr> IMAGE_MODEL_MAP = [(str ''jimeng-4.0'', str ''high_aes_general_v40'')],
         IMAGE_MODEL_MAP_US = [(str ''nanobanana'', str ''external_model_gemini_flash_image_v25'')],
         DEFAULT_MODEL = str ''jimeng-4.0'', RESOLUTION_OPTIONS = [] \<rparr>) (str ''jimeng-4.0'')
       = Entry (str ''high_aes_general_v40'')"
proof -
  let ?C = "\<lparr> IMAGE_MODEL_MAP = [(str ''jimeng-4.0'', str ''high_aes_general_v40'')],
         IMAGE_MODEL_MAP_US = [(str ''nanobanana'', str ''external_model_gemini_flash_image_v25'')],
         DEFAULT_MODEL = str ''jimeng-4.0'', RESOLUTION_OPTIONS = [] \<rparr>"
  have k: "str ''constructor'' \<in> set objectPrototypeKeys"
    by (simp add: objectPrototypeKeys_def)
  have a: "map_of (IMAGE_MODEL_MAP_US ?C) (str ''constructor'') = None"
    by (simp add: str_def)
  have b: "map_of (IMAGE_MODEL_MAP ?C) (str ''constructor'') = None"
    by (simp add: str_def)
  have d: "tableGet (IMAGE_MODEL_MAP ?C) (str ''jimeng-4.0'') = Entry (str ''high_aes_general_v40'')"
    by (simp add: tableGet_def)
  from getModel_inherited_name [of "str ''constructor''" ?C] k a b
  have "getModel ?C (str ''constructor'') True = Inr (Inherited (str ''constructor''))"
    and "getModel ?C (str ''constructor'') False = Inr (Inherited (str ''constructor''))"
    by blast+
  with k a b d show ?thesis by blast
qed

section \<open>Object-shaped image inputs\<close>

lemma isString_eq: "isString v \<Longrightarrow> JStr (string_of v) = v"
  by (cases v) simp_all

lemma firstStringKey_imageKeys:
  "firstStringKey imageKeys kvs =
     (if isString (field kvs ''b64_json'') then Some (''b64_json'', string_of (field kvs ''b64_json''))
      else if isString (field kvs ''base64'') then Some (''base64'', string_of (field kvs ''base64''))
      else if isString (field kvs ''image_base64'') then Some (''image_base64'', string_of (field kvs ''image_base64''))
      else if isString (field kvs ''image_bytes'') then Some (''image_bytes'', string_of (field kvs ''image_bytes''))
      else if isString (field kvs ''url'') then Some (''url'', string_of (field kvs ''url''))
      else None)"
  by (simp add: imageKeys_def)

lemma normalizeImageInput_JObj:
  "normalizeImageInput U (JObj kvs) =
        (if isString (field kvs ''b64_json'')
           then JBuffer (base64ToBuffer U (string_of (field kvs ''b64_json'')))
         else if isString (field kvs ''base64'')
           then JBuffer (base64ToBuffer U (string_of (field kvs ''base64'')))
         else if isString (field kvs ''image_base64'')
           then JBuffer (base64ToBuffer U (string_of (field kvs ''image_base64'')))
         else if isString (field kvs ''image_bytes'')
           then JBuffer (base64ToBuffer U (string_of (field kvs ''image_bytes'')))
         else if isString (field kvs ''url'')
           then normalizeImageInput U (JStr (string_of (field kvs ''url'')))
         else JObj kvs)"
  by (subst normalizeImageInput.simps) (simp add: isString_eq)

lemma normalizeImageInput_object:
  "normalizeImageInput U (JObj kvs) =
     (case firstStringKey imageKeys kvs of
        None \<Rightarrow> JObj kvs
      | Some (k, s) \<Rightarrow>
          if k = ''url'' then normalizeImageInput U (JStr s)
          else JBuffer (bufferFromBase64 U (extractBase64Data s)))"
  unfolding firstStringKey_imageKeys normalizeImageInput_JObj
  by (simp add: base64ToBuffer_def)

lemma firstStringKey_nth:
  "i < length ks \<Longrightarrow> field kvs (ks ! i) = JStr s
     \<Longrightarrow> (\<forall>j<i. \<not> isString (field kvs (ks ! j)))
     \<Longrightarrow> firstStringKey ks kvs = Some (ks ! i, s)"
proof (induction ks arbitrary: i)
  case Nil
  then show ?case by simp
next
  case (Cons k ks)
  show ?case
  proof (cases i)
    case 0
    with Cons.prems show ?thesis by simp
  next
    case (Suc i')
    from Cons.prems Suc have "\<not> isString (field kvs k)" by auto
    moreover from Cons.prems Suc have "firstStringKey ks kvs = Some (ks ! i', s)"
      by (intro Cons.IH) auto
    ultimately show ?thesis using Suc by simp
  qed
qed

lemma firstStringKey_agree:
  "i < length ks \<Longrightarrow> isString (field kvs (ks ! i))
     \<Longrightarrow> (\<forall>j\<le>i. field kvs' (ks ! j) = field kvs (ks ! j))
     \<Longrightarrow> (\<forall>j<i. \<not> isString (field kvs (ks ! j)))
     \<Longrightarrow> firstStringKey ks kvs' = firstStringKey ks kvs"
proof -
  assume a: "i < length ks" "isString (field kvs (ks ! i))"
    "\<forall>j\<le>i. field kvs' (ks ! j) = field kvs (ks ! j)"
    "\<forall>j<i. \<not> isString (field kvs (ks ! j))"
  obtain s where s: "field kvs (ks ! i) = JStr s"
    using a(2) by (cases "field kvs (ks ! i)") simp_all
  have "firstStringKey ks kvs = Some (ks ! i, s)"
    using a(1) s a(4) by (rule firstStringKey_nth)
  moreover have "firstStringKey ks kvs' = Some (ks ! i, s)"
    using a s by (intro firstStringKey_nth) auto
  ultimately show ?thesis by simp
qed

lemma imageKeys_nth_not_url: "i < 4 \<Longrightarrow> imageKeys ! i \<noteq> ''url''"
proof -
  assume "i < 4"
  then have "i = 0 \<or> i = 1 \<or> i = 2 \<or> i = 3" by arith
  then show ?thesis by (auto simp: imageKeys_def)
qed

lemma base64_key_wins:
  assumes "i < 4" "field kvs (imageKeys ! i) = JStr s"
    "\<forall>j<i. \<not> isString (field kvs (imageKeys ! j))"
  shows "normalizeImageInput U (JObj kvs) = JBuffer (bufferFromBase64 U (extractBase64Data s))"
proof -
  have "firstStringKey imageKeys kvs = Some (imageKeys ! i, s)"
    using assms by (intro firstStringKey_nth) (simp_all add: imageKeys_def)
  then show ?thesis
    using imageKeys_nth_not_url [OF assms(1)] by (simp add: normalizeImageInput_object)
qed

lemma url_only_last:
  assumes "\<forall>j<4. \<not> isString (field kvs (imageKeys ! j))" "field kvs ''url'' = JStr u"
  shows "normalizeImageInput U (JObj kvs) = normalizeImageInput U (JStr u)"
proof -
  have "firstStringKey imageKeys kvs = Some (imageKeys ! 4, u)"
    using assms by (intro firstStringKey_nth) (simp_all add: imageKeys_def)
  then show ?thesis by (simp add: normalizeImageInput_object imageKeys_def)
qed

text \<open>
  C9. For an object-shaped image input \<open>normalizeImageInput\<close> reads the keys in the
  order \<open>b64_json\<close>, \<open>base64\<close>, \<open>image_base64\<close>, \<open>image_bytes\<close>, \<open>url\<close>:
  the first of them that holds a string decides the result. For one of the four base64
  keys the result is the Buffer decoded from that string (a data-URI header stripped),
  whatever the later keys hold: an object that agrees on the keys up to the deciding one
  gives the same result. The \<open>url\<close> is normalized, by the string case of the same
  function, only when none of the four base64 keys holds a string.
\<close>

theorem normalizeImageInput_precedence:
  "normalizeImageInput U (JObj kvs) =
     (case firstStringKey imageKeys kvs of
        None \<Rightarrow> JObj kvs
      | Some (k, s) \<Rightarrow>
          if k = ''url'' then normalizeImageInput U (JStr s)
          else JBuffer (bufferFromBase64 U (extractBase64Data s)))
   \<and> (i < 4 \<and> field kvs (imageKeys ! i) = JStr s
        \<and> (\<forall>j<i. \<not> isString (field kvs (imageKeys ! j)))
      \<longrightarrow> normalizeImageInput U (JObj kvs) = JBuffer (bufferFromBase64 U (extractBase64Data s)))
   \<and> (i < 4 \<and> field kvs (imageKeys ! i) = JStr s
        \<and> (\<forall>j<i. \<not> isString (field kvs (imageKeys ! j)))
        \<and> (\<forall>j\<le>i. field kvs' (imageKeys ! j) = field kvs (imageKeys ! j))
      \<longrightarrow> normalizeImageInput U (JObj kvs') = normalizeImageInput U (JObj kvs))
   \<and> ((\<forall>j<4. \<not> isString (field kvs (imageKeys ! j))) \<and> field kvs ''url'' = JStr u
      \<longrightarrow> normalizeImageInput U (JObj kvs) = normalizeImageInput U (JStr u))"
proof -
  have later: "normalizeImageInput U (JObj kvs') = normalizeImageInput U (JObj kvs)"
    if h: "i < 4" "field kvs (imageKeys ! i) = JStr s"
      "\<forall>j<i. \<not> isString (field kvs (imageKeys ! j))"
      "\<forall>j\<le>i. field kvs' (imageKeys ! j) = field kvs (imageKeys ! j)"
  proof -
    have "firstStringKey imageKeys kvs' = firstStringKey imageKeys kvs"
      using h by (intro firstStringKey_agree [of i]) (simp_all add: imageKeys_def)
    moreover have "firstStringKey imageKeys kvs = Some (imageKeys ! i, s)"
      using h by (intro firstStringKey_nth) (simp_all add: imageKeys_def)
    ultimately show ?thesis
      using imageKeys_nth_not_url [OF h(1)] by (simp add: normalizeImageInput_object)
  qed
  show ?thesis
    using normalizeImageInput_object [of U kvs] base64_key_wins [of i kvs s U]
      url_only_last [of kvs u U] later
    by blast
qed

lemma str_data_uri_example: "str ''data:image/png;base64,QUJD'' = [100,97,116,97,58,105,109,97,103,101,47,112,110,103,59,98,97,115,101,54,52,44,81,85,74,68]"
  by (simp add: str_def)
lemma str_data_image: "str ''data:image/'' = [100,97,116,97,58,105,109,97,103,101,47]"
  by (simp add: str_def)
lemma str_base64_marker: "str '';base64,'' = [59,98,97,115,101,54,52,44]"
  by (simp add: str_def)
lemma str_QUJD: "str ''QUJD'' = [81,85,74,68]"
  by (simp add: str_def)

theorem normalizeImageInput_precedence_witness:
  "(1::nat) < 4
   \<and> field [(str ''url'', JStr (str ''https://x/y.png'')), (str ''base64'', JStr (str ''data:image/png;base64,QUJD'')),
             (str ''image_bytes'', JStr (str ''RUZH''))] (imageKeys ! 1) = JStr (str ''data:image/png;base64,QUJD'')
   \<and> normalizeImageInput \<lparr> isBASE64Data = (\<lambda>s. False), isBASE64 = (\<lambda>s. False), bufferFromBase64 = (\<lambda>s. s) \<rparr>
        (JObj [(str ''url'', JStr (str ''https://x/y.png'')), (str ''base64'', JStr (str ''data:image/png;base64,QUJD'')),
               (str ''image_bytes'', JStr (str ''RUZH''))])
       = JBuffer (str ''QUJD'')"
proof -
  let ?kvs = "[(str ''url'', JStr (str ''https://x/y.png'')), (str ''base64'', JStr (str ''data:image/png;base64,QUJD'')),
             (str ''image_bytes'', JStr (str ''RUZH''))]"
  let ?U = "\<lparr> isBASE64Data = (\<lambda>s. False), isBASE64 = (\<lambda>s. False), bufferFromBase64 = (\<lambda>s. s) \<rparr>"
  have f1: "field ?kvs (imageKeys ! 1) = JStr (str ''data:image/png;base64,QUJD'')"
    by (simp add: imageKeys_def field_def str_def)
  have f0: "\<forall>j<(1::nat). \<not> isString (field ?kvs (imageKeys ! j))"
    by (simp add: imageKeys_def field_def str_def)
  have x: "extractBase64Data (str ''data:image/png;base64,QUJD'') = str ''QUJD''"
    unfolding extractBase64Data_def str_data_uri_example str_data_image str_base64_marker str_QUJD
    by (simp add: startsWith_def isLineTerminator_def Let_def)
  have "normalizeImageInput ?U (JObj ?kvs)
      = JBuffer (bufferFromBase64 ?U (extractBase64Data (str ''data:image/png;base64,QUJD'')))"
    by (rule normalizeImageInput_precedence [where i = 1, THEN conjunct2, THEN conjunct1, THEN mp])
       (intro conjI f1 f0, simp)
  then have "normalizeImageInput ?U (JObj ?kvs) = JBuffer (str ''QUJD'')"
    by (simp only: x utilEnv.simps)
  with f1 show ?thesis by simp
qed

section \<open>Runs\<close>

named_theorems run_simps

lemma andThen_ret [run_simps]: "andThen (ret x) f = f x"
  by (cases "f x") (simp add: andThen_def ret_def)

lemma andThen_throw [run_simps]: "andThen (throw e) f = throw e"
  by (simp add: andThen_def throw_def)

lemma lift_Inr [run_simps]: "lift (Inr x) = ret x"
  by (simp add: lift_def ret_def)

lemma lift_Inl [run_simps]: "lift (Inl e) = throw e"
  by (simp add: lift_def throw_def)

lemma trace_ret [run_simps]: "trace (ret x) = []"
  by (simp add: trace_def ret_def)

lemma outcome_ret [run_simps]: "outcome (ret x) = Inr x"
  by (simp add: outcome_def ret_def)

lemma trace_throw [run_simps]: "trace (throw e) = []"
  by (simp add: trace_def throw_def)

lemma outcome_throw [run_simps]: "outcome (throw e) = Inl e"
  by (simp add: outcome_def throw_def)

lemma trace_lift [run_simps]: "trace (lift r) = []"
  by (simp add: trace_def lift_def)

lemma outcome_lift [run_simps]: "outcome (lift r) = r"
  by (simp add: outcome_def lift_def)

lemma trace_logLine [run_simps]: "trace (logLine l m) = [Log l m]"
  by (simp add: trace_def logLine_def)

lemma outcome_logLine [run_simps]: "outcome (logLine l m) = Inr ()"
  by (simp add: outcome_def logLine_def)

lemma trace_perform [run_simps]: "trace (perform ev a) = [ev]"
  by (simp add: trace_def perform_def)

lemma outcome_perform [run_simps]: "outcome (perform ev a) = a"
  by (simp add: outcome_def perform_def)

lemma trace_andThen [run_simps]:
  "trace (andThen m f) = trace m @ (case outcome m of Inl e \<Rightarrow> [] | Inr x \<Rightarrow> trace (f x))"
  by (cases m) (auto simp: andThen_def trace_def outcome_def split: sum.splits prod.splits)

lemma outcome_andThen [run_simps]:
  "outcome (andThen m f) = (case outcome m of Inl e \<Rightarrow> Inl e | Inr x \<Rightarrow> outcome (f x))"
  by (cases m) (auto simp: andThen_def outcome_def split: sum.splits prod.splits)

lemma trace_tryCatch [run_simps]:
  "trace (tryCatch m h) = trace m @ (case outcome m of Inl e \<Rightarrow> trace (h e) | Inr x \<Rightarrow> [])"
  by (cases m) (auto simp: tryCatch_def trace_def outcome_def split: sum.splits prod.splits)

lemma outcome_tryCatch [run_simps]:
  "outcome (tryCatch m h) = (case outcome m of Inl e \<Rightarrow> outcome (h e) | Inr x \<Rightarrow> Inr x)"
  by (cases m) (auto simp: tryCatch_def outcome_def split: sum.splits prod.splits)

lemma run_eq_iff: "m = m' \<longleftrightarrow> trace m = trace m' \<and> outcome m = outcome m'"
  by (cases m, cases m') (simp add: trace_def outcome_def)

lemma draftsOf_append [run_simps]: "draftsOf (a @ b) = draftsOf a @ draftsOf b"
  by (induction a rule: draftsOf.induct) simp_all

lemma pollersOf_append [run_simps]: "pollersOf (a @ b) = pollersOf a @ pollersOf b"
  by (induction a rule: pollersOf.induct) simp_all

lemma fetchesOf_append [run_simps]: "fetchesOf (a @ b) = fetchesOf a @ fetchesOf b"
  by (induction a rule: fetchesOf.induct) simp_all

section \<open>The requests of an upload\<close>

lemma fetches_requestUploadToken:
  "fetchesOf (trace (requestUploadToken E W tok ri)) = []"
  by (simp add: requestUploadToken_def run_simps Let_def split: sum.splits)

lemma drafts_requestUploadToken:
  "draftsOf (trace (requestUploadToken E W tok ri)) = []"
  by (simp add: requestUploadToken_def run_simps Let_def split: sum.splits)

lemma fetches_readUploadAddress: "fetchesOf (trace (readUploadAddress r)) = []"
  by (simp add: readUploadAddress_def run_simps Let_def split: sum.splits)

lemma drafts_readUploadAddress: "draftsOf (trace (readUploadAddress r)) = []"
  by (simp add: readUploadAddress_def run_simps Let_def split: sum.splits)

lemma fetches_applyImageUpload:
  "fetchesOf (trace (applyImageUpload E W ri tok b)) = [applyRequest E W ri tok b]"
  by (simp add: applyImageUpload_def run_simps fetches_readUploadAddress split: sum.splits)

lemma drafts_applyImageUpload:
  "draftsOf (trace (applyImageUpload E W ri tok b)) = []"
  by (simp add: applyImageUpload_def run_simps drafts_readUploadAddress split: sum.splits)

lemma fetches_putImage:
  "fetchesOf (trace (putImage E W ri tg b)) = [putRequest E ri tg b]"
  by (simp add: putImage_def run_simps split: sum.splits)

lemma drafts_putImage:
  "draftsOf (trace (putImage E W ri tg b)) = []"
  by (simp add: putImage_def run_simps split: sum.splits)

lemma fetches_readCommitResult: "fetchesOf (trace (readCommitResult r)) = []"
  by (simp add: readCommitResult_def run_simps Let_def split: sum.splits)

lemma drafts_readCommitResult: "draftsOf (trace (readCommitResult r)) = []"
  by (simp add: readCommitResult_def run_simps Let_def split: sum.splits)

lemma fetches_commitImageUpload:
  "fetchesOf (trace (commitImageUpload E W ri tok tg)) = [commitRequest E W ri tok tg]"
  by (simp add: commitImageUpload_def run_simps fetches_readCommitResult split: sum.splits)

lemma drafts_commitImageUpload:
  "draftsOf (trace (commitImageUpload E W ri tok tg)) = []"
  by (simp add: commitImageUpload_def run_simps drafts_readCommitResult split: sum.splits)

lemma outcome_rethrow:
  "outcome (tryCatch m (\<lambda>e. andThen (logLine l (g e)) (\<lambda>_. throw e))) = outcome m"
  by (cases "outcome m") (simp_all add: run_simps)

lemma outcome_uploadImageBuffer:
  "outcome (uploadImageBuffer E W b tok ri) =
     (case outcome (requestUploadToken E W tok ri) of
        Inl e \<Rightarrow> Inl e
      | Inr t \<Rightarrow>
          (case outcome (applyImageUpload E W ri t b) of
             Inl e \<Rightarrow> Inl e
           | Inr tg \<Rightarrow>
               (case outcome (putImage E W ri tg b) of
                  Inl e \<Rightarrow> Inl e
                | Inr _ \<Rightarrow> outcome (commitImageUpload E W ri t tg))))"
  unfolding uploadImageBuffer_def outcome_rethrow
  by (simp add: run_simps split: sum.splits)

lemma outcome_readCommitResult_bad:
  "firstUriStatus cr \<noteq> JNum (Fin 2000) \<Longrightarrow> \<exists>e. outcome (readCommitResult cr) = Inl e"
  unfolding readCommitResult_def firstUriStatus_def Let_def
  by (cases "first (optProp (optProp cr ''Result'') ''Results'')")
     (simp_all add: run_simps)

lemma outcome_commitImageUpload_bad:
  assumes "uw_commitResponse W = Inr resp" "resp_json resp = Inr cr"
    "firstUriStatus cr \<noteq> JNum (Fin 2000)"
  shows "\<exists>e. outcome (commitImageUpload E W ri t tg) = Inl e"
proof -
  obtain e where "outcome (readCommitResult cr) = Inl e"
    using outcome_readCommitResult_bad [OF assms(3)] by blast
  then show ?thesis
    using assms(1,2)
    by (cases "resp_text resp") (simp_all add: commitImageUpload_def run_simps)
qed

lemma uploadImageBuffer_bad_commit:
  assumes "uw_commitResponse W = Inr resp" "resp_json resp = Inr cr"
    "firstUriStatus cr \<noteq> JNum (Fin 2000)"
  shows "\<exists>e. outcome (uploadImageBuffer E W b tok ri) = Inl e"
  using outcome_commitImageUpload_bad [OF assms]
  by (auto simp: outcome_uploadImageBuffer split: sum.splits)

lemma outcome_readCommitResult_status:
  assumes "\<not> truthy (optProp (optProp cr ''ResponseMetadata'') ''Error'')"
    "optProp (optProp cr ''Result'') ''Results'' = JArr (JObj kvs # rs)"
    "field kvs ''UriStatus'' \<noteq> JNum (Fin 2000)"
  shows "outcome (readCommitResult cr) = Inl (UriStatusAbnormal (field kvs ''UriStatus''))"
  using assms by (simp add: readCommitResult_def run_simps Let_def)

lemma outcome_commitImageUpload_status:
  assumes "uw_commitResponse W = Inr resp" "resp_ok resp" "resp_json resp = Inr cr"
    "\<not> truthy (optProp (optProp cr ''ResponseMetadata'') ''Error'')"
    "optProp (optProp cr ''Result'') ''Results'' = JArr (JObj kvs # rs)"
    "field kvs ''UriStatus'' \<noteq> JNum (Fin 2000)"
  shows "outcome (commitImageUpload E W ri t tg) = Inl (UriStatusAbnormal (field kvs ''UriStatus''))"
  using assms(1,2,3) outcome_readCommitResult_status [OF assms(4,5,6)]
  by (simp add: commitImageUpload_def run_simps)

lemma drafts_uploadImageBuffer:
  "draftsOf (trace (uploadImageBuffer E W b tok ri)) = []"
  by (simp add: uploadImageBuffer_def run_simps drafts_requestUploadToken
      drafts_applyImageUpload drafts_putImage drafts_commitImageUpload split: sum.splits)

lemma drafts_uploadImageFromUrl:
  "draftsOf (trace (uploadImageFromUrl E W u tok ri)) = []"
  by (simp add: uploadImageFromUrl_def run_simps drafts_uploadImageBuffer Let_def split: sum.splits)

lemma drafts_processImageInput:
  "draftsOf (trace (processImageInput E W img tok ri)) = []"
  by (cases img)
     (simp_all add: processImageInput_def run_simps drafts_uploadImageBuffer
        drafts_uploadImageFromUrl split: sum.splits)

lemma outcome_uploadImageFromUrl_fail:
  assumes "\<And>b. \<exists>e. outcome (uploadImageBuffer E W b tok ri) = Inl e"
  shows "\<exists>e. outcome (uploadImageFromUrl E W u tok ri) = Inl e"
proof -
  have a: "\<And>b. \<exists>e. outcome (uploadImageBuffer E W b tok ri) = Inl e" by (rule assms)
  show ?thesis
    unfolding uploadImageFromUrl_def outcome_rethrow Let_def
    using a by (auto simp: run_simps split: sum.splits)
qed

lemma outcome_processImageInput_fail:
  assumes "\<And>b. \<exists>e. outcome (uploadImageBuffer E W b tok ri) = Inl e"
  shows "\<exists>e. outcome (processImageInput E W img tok ri) = Inl e"
proof (cases img)
  case (StringInput s)
  then show ?thesis
    using assms outcome_uploadImageFromUrl_fail [of E W tok ri s, OF assms]
    by (auto simp: processImageInput_def run_simps split: sum.splits)
qed (use assms in \<open>auto simp: processImageInput_def run_simps split: sum.splits\<close>)

section \<open>The upload loop\<close>


lemma outcome_upload_step:
  "outcome (tryCatch
          (andThen (logLine LInfo (ProcessingImage k n)) (\<lambda>_.
           andThen (processImageInput U Wi img tok ri) (\<lambda>imageId.
           andThen (logLine LInfo (ImageUploaded k n imageId)) (\<lambda>_.
           ret imageId))))
          (\<lambda>e. andThen (logLine LError (ImageFailed k n e)) (\<lambda>_.
                throw (ImageUploadFailed e))))
     = (case outcome (processImageInput U Wi img tok ri) of
          Inl e \<Rightarrow> Inl (ImageUploadFailed e)
        | Inr imageId \<Rightarrow> Inr imageId)"
  by (simp add: run_simps split: sum.splits)

lemma drafts_upload_step:
  "draftsOf (trace (tryCatch
          (andThen (logLine LInfo (ProcessingImage k n)) (\<lambda>_.
           andThen (processImageInput U Wi img tok ri) (\<lambda>imageId.
           andThen (logLine LInfo (ImageUploaded k n imageId)) (\<lambda>_.
           ret imageId))))
          (\<lambda>e. andThen (logLine LError (ImageFailed k n e)) (\<lambda>_.
                throw (ImageUploadFailed e))))) = []"
  by (simp add: run_simps drafts_processImageInput split: sum.splits)

lemma outcome_uploadImages_Cons:
  "outcome (uploadImages E W tok ri n i (img # rest) acc) =
     (case outcome (processImageInput (uploader E) (w_upload W i) img tok ri) of
        Inl e \<Rightarrow> Inl (ImageUploadFailed e)
      | Inr imageId \<Rightarrow> outcome (uploadImages E W tok ri n (i + 1) rest (acc @ [imageId])))"
  by (simp add: uploadImages.simps outcome_andThen outcome_upload_step split: sum.splits)

lemma drafts_uploadImages:
  "draftsOf (trace (uploadImages E W tok ri n i imgs acc)) = []"
proof (induction imgs arbitrary: i acc)
  case Nil
  then show ?case by (simp add: uploadImages.simps run_simps)
next
  case (Cons img rest)
  show ?case
    by (simp add: uploadImages.simps trace_andThen draftsOf_append drafts_upload_step Cons.IH
        split: sum.splits)
qed


lemma uploadImages_fail:
  "j < length imgs \<Longrightarrow>
   outcome (processImageInput (uploader E) (w_upload W (i + j)) (imgs ! j) tok ri) = Inl e \<Longrightarrow>
   \<exists>e'. outcome (uploadImages E W tok ri n i imgs acc) = Inl (ImageUploadFailed e')"
proof (induction imgs arbitrary: i j acc)
  case Nil
  then show ?case by simp
next
  case (Cons img rest)
  show ?case
  proof (cases "outcome (processImageInput (uploader E) (w_upload W i) img tok ri)")
    case (Inl a)
    then show ?thesis by (simp add: outcome_uploadImages_Cons)
  next
    case (Inr imageId)
    with Cons.prems obtain j' where j': "j = Suc j'"
      by (cases j) auto
    with Cons.prems have "j' < length rest"
      "outcome (processImageInput (uploader E) (w_upload W (i + 1 + j')) (rest ! j') tok ri) = Inl e"
      by simp_all
    from Cons.IH [OF this] Inr show ?thesis
      by (simp add: outcome_uploadImages_Cons)
  qed
qed

lemma uploadImages_error:
  "outcome (uploadImages E W tok ri n i imgs acc) = Inl e \<Longrightarrow> \<exists>e'. e = ImageUploadFailed e'"
proof (induction imgs arbitrary: i acc)
  case Nil
  then show ?case by (simp add: uploadImages.simps run_simps)
next
  case (Cons img rest)
  then show ?case
    by (auto simp: outcome_uploadImages_Cons split: sum.splits)
qed

section \<open>The composition call\<close>

lemma outcome_checkCreditQuietly: "outcome (checkCreditQuietly W tok) = Inr ()"
  by (simp add: checkCreditQuietly_def run_simps split: sum.splits)

lemma drafts_checkCreditQuietly: "draftsOf (trace (checkCreditQuietly W tok)) = []"
  by (simp add: checkCreditQuietly_def run_simps split: sum.splits)

lemma drafts_awaitComposition: "draftsOf (trace (awaitComposition E W r)) = []"
  by (simp add: awaitComposition_def run_simps Let_def split: sum.splits)

lemma drafts_resolveSize: "draftsOf (trace (resolveSize E m r a)) = []"
  by (simp add: resolveSize_def run_simps)

lemma drafts_generateImageComposition:
  "draftsOf (trace (generateImageComposition E W m prompt images opts tok)) =
     (case getModel (tables E) m (ri_isInternational (parseRegionFromToken E tok)) of
        Inl e \<Rightarrow> []
      | Inr model \<Rightarrow>
         (case outcome (resolveSize E m (Some (defaultTo (o_resolution opts) (str ''2k'')))
                          (Some (defaultTo (o_ratio opts) (str ''1:1'')))) of
            Inl e \<Rightarrow> []
          | Inr p \<Rightarrow>
             (case outcome (uploadImages E W tok (parseRegionFromToken E tok) (length images) 0 images []) of
                Inl e \<Rightarrow> []
              | Inr ids \<Rightarrow>
                  [draftOf E (parseRegionFromToken E tok) model clickMetrics ''blend''
                     (Blend (blendOf model prompt (defaultTo (o_sampleStrength opts) (Fin (1 / 2))) p ids))])))"
  by (simp add: generateImageComposition_def Let_def run_simps drafts_resolveSize
      outcome_checkCreditQuietly drafts_checkCreditQuietly drafts_uploadImages
      drafts_awaitComposition split: sum.splits)

lemma outcome_generateImageComposition_upload_fail:
  assumes "outcome (uploadImages E W tok (parseRegionFromToken E tok) (length images) 0 images []) = Inl e"
  shows "\<exists>e'. outcome (generateImageComposition E W m prompt images opts tok) = Inl e'"
  using assms
  by (simp add: generateImageComposition_def Let_def run_simps outcome_checkCreditQuietly
      split: sum.splits)

section \<open>The commit request\<close>

lemma readUploadAddress_url:
  "outcome (readUploadAddress r) = Inr tg \<Longrightarrow> \<not> isCommitImageUpload (uploadUrl tg)"
  by (auto simp: readUploadAddress_def run_simps Let_def split: if_splits sum.splits)

lemma applyImageUpload_url:
  "outcome (applyImageUpload E W ri tok b) = Inr tg \<Longrightarrow> \<not> isCommitImageUpload (uploadUrl tg)"
  by (auto simp: applyImageUpload_def run_simps split: if_splits sum.splits
      dest: readUploadAddress_url)

lemma fetches_uploadImageBuffer:
  assumes "req \<in> set (fetchesOf (trace (uploadImageBuffer E W b tok ri)))"
    "isCommitImageUpload (fr_url req)"
  shows "\<exists>t tg. req = commitRequest E W ri t tg"
proof -
  have nc1: "\<And>t. \<not> isCommitImageUpload (fr_url (applyRequest E W ri t b))"
    by (simp add: applyRequest_def applyUrlOf_def Let_def)
  have nc2: "\<And>t tg. outcome (applyImageUpload E W ri t b) = Inr tg
      \<Longrightarrow> \<not> isCommitImageUpload (fr_url (putRequest E ri tg b))"
    by (simp add: putRequest_def applyImageUpload_url)
  from assms(1) have "(\<exists>t. req = applyRequest E W ri t b)
     \<or> (\<exists>t tg. outcome (applyImageUpload E W ri t b) = Inr tg \<and> req = putRequest E ri tg b)
     \<or> (\<exists>t tg. req = commitRequest E W ri t tg)"
    by (auto simp: uploadImageBuffer_def run_simps fetches_requestUploadToken
        fetches_applyImageUpload fetches_putImage fetches_commitImageUpload
        split: sum.splits)
  with assms(2) nc1 nc2 show ?thesis by blast
qed

text \<open>
  C8. Every \<open>CommitImageUpload\<close> request that \<open>uploadImageBuffer\<close> issues carries, in
  its \<open>x-amz-content-sha256\<close> header, the SHA-256 hex digest of the very string it sends
  as body; and its \<open>authorization\<close> header is the signature computed from that same
  body as payload and from a header list whose \<open>x-amz-content-sha256\<close> entry is that
  same digest.
\<close>

theorem commit_sha256_header:
  assumes "req \<in> set (fetchesOf (trace (uploadImageBuffer E W imageBuffer refreshToken ri)))"
    and "isCommitImageUpload (fr_url req)"
  shows "\<exists>payload signedHeaders aki sak st.
           fr_body req = JStr payload
         \<and> map_of (fr_headers req) ''x-amz-content-sha256'' = Some (JStr (sha256hex E payload))
         \<and> map_of signedHeaders ''x-amz-content-sha256'' = Some (JStr (sha256hex E payload))
         \<and> map_of (fr_headers req) ''authorization''
             = Some (JStr (createSignature E ''POST'' (fr_url req) signedHeaders aki sak st
                             payload (getAWSRegion E ri)))"
proof -
  from fetches_uploadImageBuffer [OF assms] obtain t tg
    where r: "req = commitRequest E W ri t tg" by blast
  let ?payload = "commitPayloadOf E tg"
  let ?hdrs = "[(''x-amz-date'', JStr (uw_commitTimestamp W)),
                (''x-amz-security-token'', session_token t),
                (''x-amz-content-sha256'', JStr (sha256hex E ?payload))]"
  have "fr_body req = JStr ?payload"
    by (simp add: r commitRequest_def Let_def)
  moreover have "map_of (fr_headers req) ''x-amz-content-sha256'' = Some (JStr (sha256hex E ?payload))"
    by (simp add: r commitRequest_def Let_def)
  moreover have "map_of ?hdrs ''x-amz-content-sha256'' = Some (JStr (sha256hex E ?payload))"
    by simp
  moreover have "map_of (fr_headers req) ''authorization''
             = Some (JStr (createSignature E ''POST'' (fr_url req) ?hdrs (access_key_id t)
                             (secret_access_key t) (session_token t) ?payload (getAWSRegion E ri)))"
    by (simp add: r commitRequest_def Let_def)
  ultimately show ?thesis by blast
qed

section \<open>A commit that answers a bad status\<close>

text \<open>
  C5. Let the commit of the upload of image \<open>i\<close> answer a first result whose
  \<open>UriStatus\<close> is not 2000. Then \<open>uploadImageBuffer\<close> raises an error whatever the
  bytes; when the three steps before the commit succeed and the answer is a well-formed
  success (status ok, no \<open>ResponseMetadata.Error\<close>, a first result that is an object),
  the error is the one of the commit step that carries the status. The composition call
  around it ends with an error and submits no draft.
\<close>

theorem commit_status_aborts:
  assumes "i < length images"
    and "uw_commitResponse (w_upload W i) = Inr resp"
    and "resp_json resp = Inr commitResult"
    and "firstUriStatus commitResult \<noteq> JNum (Fin 2000)"
  shows "(\<exists>e. outcome (uploadImageBuffer (uploader E) (w_upload W i) imageBuffer refreshToken ri) = Inl e)
     \<and> (outcome (requestUploadToken (uploader E) (w_upload W i) refreshToken ri) = Inr t
        \<and> outcome (applyImageUpload (uploader E) (w_upload W i) ri t imageBuffer) = Inr tg
        \<and> outcome (putImage (uploader E) (w_upload W i) ri tg imageBuffer) = Inr ()
        \<and> resp_ok resp
        \<and> \<not> truthy (optProp (optProp commitResult ''ResponseMetadata'') ''Error'')
        \<and> optProp (optProp commitResult ''Result'') ''Results'' = JArr (JObj kvs # rs)
        \<longrightarrow> outcome (uploadImageBuffer (uploader E) (w_upload W i) imageBuffer refreshToken ri)
              = Inl (UriStatusAbnormal (firstUriStatus commitResult)))
     \<and> (\<exists>e. outcome (generateImageComposition E W clientModel prompt images opts refreshToken) = Inl e)
     \<and> draftsOf (trace (generateImageComposition E W clientModel prompt images opts refreshToken)) = []"
proof -
  let ?ri = "parseRegionFromToken E refreshToken"
  have up: "\<And>b r. \<exists>e. outcome (uploadImageBuffer (uploader E) (w_upload W i) b refreshToken r) = Inl e"
    using uploadImageBuffer_bad_commit [OF assms(2,3,4)] by blast
  have a: "\<exists>e. outcome (uploadImageBuffer (uploader E) (w_upload W i) imageBuffer refreshToken ri) = Inl e"
    by (rule up)
  have b: "outcome (requestUploadToken (uploader E) (w_upload W i) refreshToken ri) = Inr t
        \<and> outcome (applyImageUpload (uploader E) (w_upload W i) ri t imageBuffer) = Inr tg
        \<and> outcome (putImage (uploader E) (w_upload W i) ri tg imageBuffer) = Inr ()
        \<and> resp_ok resp
        \<and> \<not> truthy (optProp (optProp commitResult ''ResponseMetadata'') ''Error'')
        \<and> optProp (optProp commitResult ''Result'') ''Results'' = JArr (JObj kvs # rs)
        \<longrightarrow> outcome (uploadImageBuffer (uploader E) (w_upload W i) imageBuffer refreshToken ri)
              = Inl (UriStatusAbnormal (firstUriStatus commitResult))"
  proof (intro impI, elim conjE)
    assume s: "outcome (requestUploadToken (uploader E) (w_upload W i) refreshToken ri) = Inr t"
      "outcome (applyImageUpload (uploader E) (w_upload W i) ri t imageBuffer) = Inr tg"
      "outcome (putImage (uploader E) (w_upload W i) ri tg imageBuffer) = Inr ()"
      and ok: "resp_ok resp"
      and ne: "\<not> truthy (optProp (optProp commitResult ''ResponseMetadata'') ''Error'')"
      and rs: "optProp (optProp commitResult ''Result'') ''Results'' = JArr (JObj kvs # rs)"
    have st: "firstUriStatus commitResult = field kvs ''UriStatus''"
      by (simp add: firstUriStatus_def rs)
    with assms(4) have "field kvs ''UriStatus'' \<noteq> JNum (Fin 2000)" by simp
    from outcome_commitImageUpload_status [OF assms(2) ok assms(3) ne rs this]
    show "outcome (uploadImageBuffer (uploader E) (w_upload W i) imageBuffer refreshToken ri)
              = Inl (UriStatusAbnormal (firstUriStatus commitResult))"
      by (simp add: outcome_uploadImageBuffer s st)
  qed
  obtain e where "outcome (processImageInput (uploader E) (w_upload W (0 + i)) (images ! i) refreshToken ?ri) = Inl e"
    using outcome_processImageInput_fail [of "uploader E" "w_upload W i" refreshToken ?ri "images ! i"] up
    by auto
  from uploadImages_fail [OF assms(1) this] obtain e' where
    f: "outcome (uploadImages E W refreshToken ?ri (length images) 0 images []) = Inl (ImageUploadFailed e')"
    by blast
  have c: "\<exists>e. outcome (generateImageComposition E W clientModel prompt images opts refreshToken) = Inl e"
    using outcome_generateImageComposition_upload_fail [OF f] .
  have d: "draftsOf (trace (generateImageComposition E W clientModel prompt images opts refreshToken)) = []"
    by (simp add: drafts_generateImageComposition f split: sum.splits)
  from a b c d show ?thesis by blast
qed

section \<open>The abilities of a composition draft\<close>




section \<open>Text to image\<close>


lemma drafts_awaitGeneration: "draftsOf (trace (awaitGeneration E W r)) = []"
  by (simp add: awaitGeneration_def run_simps split: sum.splits)

lemma pollers_awaitGeneration:
  "set (pollersOf (trace (awaitGeneration E W r)))
     \<subseteq> {\<lparr> maxPollCount = 900, expectedItemCount = Fin 4, poller_type = ''image'' \<rparr>}"
  by (simp add: awaitGeneration_def run_simps split: sum.splits)





lemma generateImagesInternal_multi_drafts:
  assumes "isJimeng40MultiImage m prompt"
  shows "draftsOf (trace (generateImagesInternal E W m prompt opts tok)) =
     (case getModel (tables E) m (ri_isInternational (parseRegionFromToken E tok)) of
        Inl e \<Rightarrow> []
      | Inr model \<Rightarrow>
        (case outcome (resolveSize E m (o_resolution opts) (o_ratio opts)) of
           Inl e \<Rightarrow> []
         | Inr p \<Rightarrow>
           (case w_getCredit W of
              Inl e \<Rightarrow> []
            | Inr c \<Rightarrow>
              (case (if num_le (totalCredit c) 0 then w_receiveCredit W else Inr ()) of
                 Inl e \<Rightarrow> []
               | Inr _ \<Rightarrow>
                   draftsOf (trace (generateJimeng40MultiImages E W m prompt
                     \<lparr> o_ratio = o_ratio opts, o_resolution = o_resolution opts,
                       o_sampleStrength = Some (defaultTo (o_sampleStrength opts) (Fin (1 / 2))),
                       o_negativePrompt = Some (defaultTo (o_negativePrompt opts) []) \<rparr> tok))))))"
  using assms
  by (simp add: generateImagesInternal_def Let_def run_simps drafts_resolveSize
      split: sum.splits)

lemma generateImagesInternal_single_drafts:
  assumes "\<not> isJimeng40MultiImage m prompt"
  shows "draftsOf (trace (generateImagesInternal E W m prompt opts tok)) =
     (case getModel (tables E) m (ri_isInternational (parseRegionFromToken E tok)) of
        Inl e \<Rightarrow> []
      | Inr model \<Rightarrow>
        (case outcome (resolveSize E m (o_resolution opts) (o_ratio opts)) of
           Inl e \<Rightarrow> []
         | Inr p \<Rightarrow>
           (case w_getCredit W of
              Inl e \<Rightarrow> []
            | Inr c \<Rightarrow>
              (case (if num_le (totalCredit c) 0 then w_receiveCredit W else Inr ()) of
                 Inl e \<Rightarrow> []
               | Inr _ \<Rightarrow>
                   [draftOf E (parseRegionFromToken E tok) model clickMetrics ''generate''
                      (Generate (generateCoreParam W model prompt
                         (defaultTo (o_negativePrompt opts) [])
                         (defaultTo (o_sampleStrength opts) (Fin (1 / 2))) p))]))))"
  using assms
  by (simp add: generateImagesInternal_def Let_def run_simps drafts_resolveSize
      drafts_awaitGeneration split: sum.splits)

lemma trace_generateImages:
  "trace (generateImages E W m prompt opts tok) =
     (case getModel (tables E) m (ri_isInternational (parseRegionFromToken E tok)) of
        Inl e \<Rightarrow> []
      | Inr model \<Rightarrow>
          Log LInfo (GenerateStart m model (defaultTo (o_resolution opts) (str ''2k''))
                       (defaultTo (o_ratio opts) (str ''1:1''))
                       (defaultTo (o_sampleStrength opts) (Fin (1 / 2))))
          # trace (generateImagesInternal E W m prompt
               \<lparr> o_ratio = Some (defaultTo (o_ratio opts) (str ''1:1'')),
                 o_resolution = Some (defaultTo (o_resolution opts) (str ''2k'')),
                 o_sampleStrength = Some (defaultTo (o_sampleStrength opts) (Fin (1 / 2))),
                 o_negativePrompt = Some (defaultTo (o_negativePrompt opts) []) \<rparr> tok))"
  by (simp add: generateImages_def Let_def run_simps split: sum.splits)

lemma outcome_generateImages:
  "outcome (generateImages E W m prompt opts tok) =
     (case getModel (tables E) m (ri_isInternational (parseRegionFromToken E tok)) of
        Inl e \<Rightarrow> Inl e
      | Inr model \<Rightarrow>
          outcome (generateImagesInternal E W m prompt
               \<lparr> o_ratio = Some (defaultTo (o_ratio opts) (str ''1:1'')),
                 o_resolution = Some (defaultTo (o_resolution opts) (str ''2k'')),
                 o_sampleStrength = Some (defaultTo (o_sampleStrength opts) (Fin (1 / 2))),
                 o_negativePrompt = Some (defaultTo (o_negativePrompt opts) []) \<rparr> tok))"
  by (simp add: generateImages_def Let_def run_simps split: sum.splits)

section \<open>The image count of a prompt\<close>









lemma nanobanana_not_jimeng40: "str ''nanobanana'' \<noteq> str ''jimeng-4.0''"
  by (simp add: str_def)

lemma nanobanana_single: "\<not> isJimeng40MultiImage (str ''nanobanana'') prompt"
  by (simp add: isJimeng40MultiImage_def nanobanana_not_jimeng40)

lemma trace_resolveSize_nanobanana:
  "trace (resolveSize E (str ''nanobanana'') r a) = [Log LWarn NanobananaFixed]"
  by (simp add: resolveSize_def run_simps)

lemma outcome_resolveSize_nanobanana:
  "outcome (resolveSize E (str ''nanobanana'') r a) =
     Inr \<lparr> p_width = 1024, p_height = 1024, p_image_ratio = 1, p_resolution_type = str ''2k'' \<rparr>"
  by (simp add: resolveSize_def run_simps)

lemma coreParamOf_generate:
  "coreParamOf (draftOf E ri model metrics g (Generate cp)) = cp"
  by (simp add: coreParamOf.simps draftOf_def)

lemma coreParamOf_blend:
  "coreParamOf (draftOf E ri model metrics g (Blend (blendOf model prompt ss p ids)))
     = bl_core_param (blendOf model prompt ss p ids)"
  by (simp add: coreParamOf.simps draftOf_def)

lemma nanobanana_generate_draft:
  assumes "d \<in> set (draftsOf (trace (generateImages E W (str ''nanobanana'') prompt opts tok)))"
  shows "li_width (cp_large_image_info (coreParamOf d)) = 1024
     \<and> li_height (cp_large_image_info (coreParamOf d)) = 1024
     \<and> cp_image_ratio (coreParamOf d) = 1
     \<and> li_resolution_type (cp_large_image_info (coreParamOf d)) = str ''2k''"
proof -
  let ?o = "\<lparr> o_ratio = Some (defaultTo (o_ratio opts) (str ''1:1'')),
                 o_resolution = Some (defaultTo (o_resolution opts) (str ''2k'')),
                 o_sampleStrength = Some (defaultTo (o_sampleStrength opts) (Fin (1 / 2))),
                 o_negativePrompt = Some (defaultTo (o_negativePrompt opts) []) \<rparr>"
  from assms have "d \<in> set (draftsOf (trace (generateImagesInternal E W (str ''nanobanana'') prompt ?o tok)))"
    by (auto simp: trace_generateImages split: sum.splits)
  then obtain model np ss where
    "d = draftOf E (parseRegionFromToken E tok) model clickMetrics ''generate''
          (Generate (generateCoreParam W model prompt np ss
             \<lparr> p_width = 1024, p_height = 1024, p_image_ratio = 1, p_resolution_type = str ''2k'' \<rparr>))"
    by (auto simp: generateImagesInternal_single_drafts [OF nanobanana_single]
        outcome_resolveSize_nanobanana split: sum.splits if_splits)
  then show ?thesis
    by (simp add: coreParamOf.simps draftOf_def generateCoreParam_def)
qed

lemma nanobanana_composition_draft:
  assumes "d \<in> set (draftsOf (trace (generateImageComposition E W (str ''nanobanana'') prompt images opts tok)))"
  shows "li_width (cp_large_image_info (coreParamOf d)) = 1024
     \<and> li_height (cp_large_image_info (coreParamOf d)) = 1024
     \<and> cp_image_ratio (coreParamOf d) = 1
     \<and> li_resolution_type (cp_large_image_info (coreParamOf d)) = str ''2k''"
proof -
  from assms obtain model ss ids where
    "d = draftOf E (parseRegionFromToken E tok) model clickMetrics ''blend''
          (Blend (blendOf model prompt ss
             \<lparr> p_width = 1024, p_height = 1024, p_image_ratio = 1, p_resolution_type = str ''2k'' \<rparr> ids))"
    by (auto simp: drafts_generateImageComposition outcome_resolveSize_nanobanana
        split: sum.splits)
  then show ?thesis
    by (simp add: coreParamOf.simps draftOf_def blendOf_def)
qed

lemma nanobanana_generate_logged:
  assumes "getModel (tables E) (str ''nanobanana'') (ri_isInternational (parseRegionFromToken E tok)) = Inr model"
  shows "Log LWarn NanobananaFixed \<in> set (trace (generateImages E W (str ''nanobanana'') prompt opts tok))"
  using assms
  by (simp add: trace_generateImages generateImagesInternal_def Let_def run_simps
      trace_resolveSize_nanobanana outcome_resolveSize_nanobanana)

lemma nanobanana_composition_logged:
  assumes "getModel (tables E) (str ''nanobanana'') (ri_isInternational (parseRegionFromToken E tok)) = Inr model"
  shows "Log LWarn NanobananaFixed \<in> set (trace (generateImageComposition E W (str ''nanobanana'') prompt images opts tok))"
  using assms
  by (simp add: generateImageComposition_def Let_def run_simps trace_resolveSize_nanobanana outcome_resolveSize_nanobanana)

lemma nanobanana_composition_submits:
  assumes "getModel (tables E) (str ''nanobanana'') (ri_isInternational (parseRegionFromToken E tok)) = Inr model"
    and "outcome (uploadImages E W tok (parseRegionFromToken E tok) (length images) 0 images []) = Inr ids"
  shows "draftsOf (trace (generateImageComposition E W (str ''nanobanana'') prompt images opts tok))
     = [draftOf E (parseRegionFromToken E tok) model clickMetrics ''blend''
          (Blend (blendOf model prompt (defaultTo (o_sampleStrength opts) (Fin (1 / 2)))
             \<lparr> p_width = 1024, p_height = 1024, p_image_ratio = 1, p_resolution_type = str ''2k'' \<rparr>
             ids))]"
  using assms by (simp add: drafts_generateImageComposition outcome_resolveSize_nanobanana)

lemma nanobanana_composition_upload_failed:
  assumes "outcome (uploadImages E W tok (parseRegionFromToken E tok) (length images) 0 images []) = Inl e"
  shows "draftsOf (trace (generateImageComposition E W (str ''nanobanana'') prompt images opts tok)) = []"
  using assms by (simp add: drafts_generateImageComposition split: sum.splits)

lemma nanobanana_generate_submits:
  assumes "getModel (tables E) (str ''nanobanana'') (ri_isInternational (parseRegionFromToken E tok)) = Inr model"
    and "w_getCredit W = Inr c"
    and "num_le (totalCredit c) 0 \<longrightarrow> w_receiveCredit W = Inr ()"
  shows "draftsOf (trace (generateImages E W (str ''nanobanana'') prompt opts tok))
     = [draftOf E (parseRegionFromToken E tok) model clickMetrics ''generate''
          (Generate (generateCoreParam W model prompt (defaultTo (o_negativePrompt opts) [])
             (defaultTo (o_sampleStrength opts) (Fin (1 / 2)))
             \<lparr> p_width = 1024, p_height = 1024, p_image_ratio = 1, p_resolution_type = str ''2k'' \<rparr>))]"
  using assms
  by (simp add: trace_generateImages generateImagesInternal_single_drafts [OF nanobanana_single]
      outcome_resolveSize_nanobanana defaultTo_def)

text \<open>
  C3. With the client model \<open>nanobanana\<close>, every draft that \<open>generateImages\<close> or
  \<open>generateImageComposition\<close> submits has width 1024, height 1024, \<open>image_ratio\<close> 1
  and \<open>resolution_type\<close> \<open>2k\<close> in its core parameters, for all options, and the warning
  about the override is logged by both as soon as the model lookup has answered; when the
  lookup raises, nothing is submitted. The draft is submitted, and is the only one:
  by \<open>generateImages\<close> once the credit has been read (and received, when there is none),
  by \<open>generateImageComposition\<close> once every image has been uploaded; it is the draft of
  the mapped model, the prompt and the fixed size.
\<close>

theorem nanobanana_fixed_size:
  "(d \<in> set (draftsOf (trace (generateImages E W (str ''nanobanana'') prompt opts refreshToken)))
    \<longrightarrow> li_width (cp_large_image_info (coreParamOf d)) = 1024
      \<and> li_height (cp_large_image_info (coreParamOf d)) = 1024
      \<and> cp_image_ratio (coreParamOf d) = 1
      \<and> li_resolution_type (cp_large_image_info (coreParamOf d)) = str ''2k'')
   \<and> (d' \<in> set (draftsOf (trace (generateImageComposition E W (str ''nanobanana'') prompt images opts refreshToken)))
    \<longrightarrow> li_width (cp_large_image_info (coreParamOf d')) = 1024
      \<and> li_height (cp_large_image_info (coreParamOf d')) = 1024
      \<and> cp_image_ratio (coreParamOf d') = 1
      \<and> li_resolution_type (cp_large_image_info (coreParamOf d')) = str ''2k'')
   \<and> (getModel (tables E) (str ''nanobanana'')
          (ri_isInternational (parseRegionFromToken E refreshToken)) = Inr model
    \<longrightarrow> Log LWarn NanobananaFixed
          \<in> set (trace (generateImages E W (str ''nanobanana'') prompt opts refreshToken))
      \<and> Log LWarn NanobananaFixed
          \<in> set (trace (generateImageComposition E W (str ''nanobanana'') prompt images opts refreshToken)))
   \<and> (getModel (tables E) (str ''nanobanana'')
          (ri_isInternational (parseRegionFromToken E refreshToken)) = Inl e
    \<longrightarrow> draftsOf (trace (generateImages E W (str ''nanobanana'') prompt opts refreshToken)) = []
      \<and> draftsOf (trace (generateImageComposition E W (str ''nanobanana'') prompt images opts refreshToken)) = [])
   \<and> (getModel (tables E) (str ''nanobanana'')
          (ri_isInternational (parseRegionFromToken E refreshToken)) = Inr model
      \<and> w_getCredit W = Inr c \<and> (num_le (totalCredit c) 0 \<longrightarrow> w_receiveCredit W = Inr ())
    \<longrightarrow> draftsOf (trace (generateImages E W (str ''nanobanana'') prompt opts refreshToken))
        = [draftOf E (parseRegionFromToken E refreshToken) model clickMetrics ''generate''
             (Generate (generateCoreParam W model prompt (defaultTo (o_negativePrompt opts) [])
                (defaultTo (o_sampleStrength opts) (Fin (1 / 2)))
                \<lparr> p_width = 1024, p_height = 1024, p_image_ratio = 1,
                  p_resolution_type = str ''2k'' \<rparr>))])
   \<and> (getModel (tables E) (str ''nanobanana'')
          (ri_isInternational (parseRegionFromToken E refreshToken)) = Inr model
      \<and> outcome (uploadImages E W refreshToken (parseRegionFromToken E refreshToken)
                   (length images) 0 images []) = Inr ids
    \<longrightarrow> draftsOf (trace (generateImageComposition E W (str ''nanobanana'') prompt images opts refreshToken))
        = [draftOf E (parseRegionFromToken E refreshToken) model clickMetrics ''blend''
             (Blend (blendOf model prompt (defaultTo (o_sampleStrength opts) (Fin (1 / 2)))
                \<lparr> p_width = 1024, p_height = 1024, p_image_ratio = 1,
                  p_resolution_type = str ''2k'' \<rparr> ids))])"
proof -
  have none: "getModel (tables E) (str ''nanobanana'')
          (ri_isInternational (parseRegionFromToken E refreshToken)) = Inl e
    \<longrightarrow> draftsOf (trace (generateImages E W (str ''nanobanana'') prompt opts refreshToken)) = []
      \<and> draftsOf (trace (generateImageComposition E W (str ''nanobanana'') prompt images opts refreshToken)) = []"
    by (simp add: trace_generateImages drafts_generateImageComposition)
  show ?thesis
    using nanobanana_generate_draft [of d E W prompt opts refreshToken]
      nanobanana_composition_draft [of d' E W prompt images opts refreshToken]
      nanobanana_generate_logged [of E refreshToken model W prompt opts]
      nanobanana_composition_logged [of E refreshToken model W prompt images opts]
      nanobanana_generate_submits [of E refreshToken model W c prompt opts]
      nanobanana_composition_submits [of E refreshToken model W images ids prompt opts]
      none
    by blast
qed


section \<open>The credit check\<close>

lemma trace_checkCreditQuietly_failed:
  "w_getCredit W = Inl e \<Longrightarrow>
     trace (checkCreditQuietly W tok) = [GetCredit tok, Log LWarn (CreditCheckFailed e)]"
  by (simp add: checkCreditQuietly_def run_simps)

lemma trace_checkCreditQuietly_receive_failed:
  "w_getCredit W = Inr c \<Longrightarrow> num_le (totalCredit c) 0 \<Longrightarrow> w_receiveCredit W = Inl e \<Longrightarrow>
     trace (checkCreditQuietly W tok)
       = [GetCredit tok, ReceiveCredit tok, Log LWarn (CreditCheckFailed e)]"
  by (simp add: checkCreditQuietly_def run_simps)

lemma outcome_generateImagesInternal_credit:
  assumes "getModel (tables E) m (ri_isInternational (parseRegionFromToken E tok)) = Inr model"
    and "outcome (resolveSize E m (o_resolution opts) (o_ratio opts)) = Inr p"
    and "w_getCredit W = Inl e
         \<or> (\<exists>c. w_getCredit W = Inr c \<and> num_le (totalCredit c) 0 \<and> w_receiveCredit W = Inl e)"
  shows "outcome (generateImagesInternal E W m prompt opts tok) = Inl e"
  using assms
  by (auto simp: generateImagesInternal_def Let_def run_simps)

lemma drafts_generateImagesInternal_credit:
  assumes "w_getCredit W = Inl e
         \<or> (\<exists>c. w_getCredit W = Inr c \<and> num_le (totalCredit c) 0 \<and> w_receiveCredit W = Inl e)"
  shows "draftsOf (trace (generateImagesInternal E W m prompt opts tok)) = []"
proof (cases "isJimeng40MultiImage m prompt")
  case True
  with assms show ?thesis
    by (auto simp: generateImagesInternal_multi_drafts split: sum.splits)
next
  case False
  with assms show ?thesis
    by (auto simp: generateImagesInternal_single_drafts split: sum.splits)
qed

text \<open>
  C4 (what the code does where the claim fails). When \<open>getCredit\<close> raises, or
  \<open>receiveCredit\<close> raises after a balance of at most zero, \<open>generateImages\<close> ends
  with that very error, submits no draft and logs no credit warning; the credit check of
  \<open>generateImageComposition\<close> in the same world logs the warning and goes on.
\<close>

theorem generateImages_credit_failure_is_fatal:
  assumes "getModel (tables E) clientModel
             (ri_isInternational (parseRegionFromToken E refreshToken)) = Inr model"
    and "outcome (resolveSize E clientModel (Some (defaultTo (o_resolution opts) (str ''2k'')))
                    (Some (defaultTo (o_ratio opts) (str ''1:1'')))) = Inr p"
    and "w_getCredit W = Inl e
         \<or> (\<exists>c. w_getCredit W = Inr c \<and> num_le (totalCredit c) 0 \<and> w_receiveCredit W = Inl e)"
  shows "outcome (generateImages E W clientModel prompt opts refreshToken) = Inl e
     \<and> draftsOf (trace (generateImages E W clientModel prompt opts refreshToken)) = []
     \<and> Log LWarn (CreditCheckFailed e)
         \<notin> set (trace (generateImages E W clientModel prompt opts refreshToken))
     \<and> outcome (checkCreditQuietly W refreshToken) = Inr ()
     \<and> Log LWarn (CreditCheckFailed e) \<in> set (trace (checkCreditQuietly W refreshToken))"
proof -
  let ?o = "\<lparr> o_ratio = Some (defaultTo (o_ratio opts) (str ''1:1'')),
                 o_resolution = Some (defaultTo (o_resolution opts) (str ''2k'')),
                 o_sampleStrength = Some (defaultTo (o_sampleStrength opts) (Fin (1 / 2))),
                 o_negativePrompt = Some (defaultTo (o_negativePrompt opts) []) \<rparr>"
  have r: "outcome (resolveSize E clientModel (o_resolution ?o) (o_ratio ?o)) = Inr p"
    using assms(2) by simp
  have a: "outcome (generateImages E W clientModel prompt opts refreshToken) = Inl e"
    using outcome_generateImagesInternal_credit [OF assms(1) r assms(3)] assms(1)
    by (simp add: outcome_generateImages)
  have b: "draftsOf (trace (generateImages E W clientModel prompt opts refreshToken)) = []"
    using drafts_generateImagesInternal_credit [OF assms(3)] assms(1)
    by (simp add: trace_generateImages)
  have c: "Log LWarn (CreditCheckFailed e)
         \<notin> set (trace (generateImages E W clientModel prompt opts refreshToken))"
    using assms(1) r assms(3)
    by (auto simp: trace_generateImages generateImagesInternal_def Let_def run_simps
        resolveSize_def split: if_splits sum.splits)
  have d: "Log LWarn (CreditCheckFailed e) \<in> set (trace (checkCreditQuietly W refreshToken))"
    using assms(3) trace_checkCreditQuietly_failed trace_checkCreditQuietly_receive_failed
    by fastforce
  from a b c d outcome_checkCreditQuietly show ?thesis by blast
qed

section \<open>The multi-image path of jimeng-4.0\<close>

lemma resolveSize_other:
  "m \<noteq> str ''nanobanana'' \<Longrightarrow> resolveSize E m r a = lift (getResolutionParams (tables E) r a)"
  by (simp add: resolveSize_def)

lemma jimeng40_not_nanobanana: "str ''jimeng-4.0'' \<noteq> str ''nanobanana''"
  by (simp add: str_def)


section \<open>The sample environment at work\<close>

lemma sample_getModel:
  "getModel sampleTables (str ''jimeng-4.0'') False = Inr (Entry (str ''high_aes_general_v40''))"
  "getModel sampleTables (str ''nanobanana'') False = Inr (Entry (str ''high_aes_general_v40''))"
  by (simp_all add: getModel_def tableGet_def objectPrototypeKeys_def sampleTables_def str_def)

lemma sample_getResolutionParams:
  "getResolutionParams sampleTables (Some (str ''2k'')) (Some (str ''1:1''))
     = Inr \<lparr> p_width = 2048, p_height = 2048, p_image_ratio = 1, p_resolution_type = str ''2k'' \<rparr>"
  by (simp add: getResolutionParams_def sampleTables_def defaultTo_def str_def)

lemma sample_token:
  "\<exists>t. outcome (requestUploadToken sampleUploader (sampleUploadWorld st uri) tok ri) = Inr t"
  by (simp add: requestUploadToken_def sampleUploadWorld_def run_simps field_def str_def Let_def)

lemma sample_apply:
  "\<exists>tg. outcome (applyImageUpload sampleUploader (sampleUploadWorld st uri) ri t b) = Inr tg"
  by (simp add: applyImageUpload_def readUploadAddress_def sampleUploadWorld_def sampleResponse_def
      run_simps field_def str_def Let_def)

lemma sample_put:
  "outcome (putImage sampleUploader (sampleUploadWorld st uri) ri tg b) = Inr ()"
  by (simp add: putImage_def sampleUploadWorld_def sampleResponse_def run_simps)

lemma sample_commit:
  "outcome (commitImageUpload sampleUploader (sampleUploadWorld 2000 uri) ri t tg) = Inr (JStr uri)"
  by (simp add: commitImageUpload_def readCommitResult_def sampleUploadWorld_def sampleResponse_def
      sampleCommitResult_def run_simps field_def str_def Let_def)

lemma sample_upload:
  "outcome (uploadImageBuffer sampleUploader (sampleUploadWorld 2000 uri) b tok ri) = Inr (JStr uri)"
proof -
  obtain t where t: "outcome (requestUploadToken sampleUploader (sampleUploadWorld 2000 uri) tok ri) = Inr t"
    using sample_token by blast
  obtain tg where tg: "outcome (applyImageUpload sampleUploader (sampleUploadWorld 2000 uri) ri t b) = Inr tg"
    using sample_apply by blast
  show ?thesis
    by (simp add: outcome_uploadImageBuffer t tg sample_put sample_commit)
qed

lemma sample_process:
  "outcome (processImageInput sampleUploader (sampleUploadWorld 2000 uri) (Buffer b) tok ri)
     = Inr (JStr uri)"
  by (simp add: processImageInput_def run_simps sample_upload)

lemma sample_commit_fetched:
  "\<exists>t tg. commitRequest sampleUploader (sampleUploadWorld st uri) ri t tg
      \<in> set (fetchesOf (trace (uploadImageBuffer sampleUploader (sampleUploadWorld st uri) b tok ri)))"
proof -
  let ?W = "sampleUploadWorld st uri"
  obtain t where t: "outcome (requestUploadToken sampleUploader ?W tok ri) = Inr t"
    using sample_token by blast
  obtain tg where tg: "outcome (applyImageUpload sampleUploader ?W ri t b) = Inr tg"
    using sample_apply by blast
  have "commitRequest sampleUploader ?W ri t tg
      \<in> set (fetchesOf (trace (uploadImageBuffer sampleUploader ?W b tok ri)))"
    by (simp add: uploadImageBuffer_def run_simps t tg sample_put fetches_requestUploadToken
        fetches_applyImageUpload fetches_putImage fetches_commitImageUpload)
  then show ?thesis by blast
qed

lemma sample_commit_request:
  "fr_body (commitRequest sampleUploader W ri t tg) = JStr (str ''{SessionKey}'')"
  "isCommitImageUpload (fr_url (commitRequest sampleUploader W ri t tg))"
  by (simp_all add: commitRequest_def commitPayloadOf_def sampleUploader_def Let_def)

theorem commit_sha256_header_witness:
  "\<exists>req \<in> set (fetchesOf (trace (uploadImageBuffer sampleUploader
                  (sampleUploadWorld 2000 (str ''img0'')) [137, 80, 78, 71] (str ''token'') sampleRegion))).
      isCommitImageUpload (fr_url req)
    \<and> fr_body req = JStr (str ''{SessionKey}'')
    \<and> map_of (fr_headers req) ''x-amz-content-sha256''
        = Some (JStr (sha256hex sampleUploader (str ''{SessionKey}'')))"
proof -
  let ?W = "sampleUploadWorld 2000 (str ''img0'')"
  let ?run = "uploadImageBuffer sampleUploader ?W [137, 80, 78, 71] (str ''token'') sampleRegion"
  obtain t tg where m: "commitRequest sampleUploader ?W sampleRegion t tg \<in> set (fetchesOf (trace ?run))"
    using sample_commit_fetched by blast
  let ?req = "commitRequest sampleUploader ?W sampleRegion t tg"
  have c: "isCommitImageUpload (fr_url ?req)" by (rule sample_commit_request)
  have b: "fr_body ?req = JStr (str ''{SessionKey}'')" by (rule sample_commit_request)
  from commit_sha256_header [OF m c] obtain payload where
    p: "fr_body ?req = JStr payload"
    "map_of (fr_headers ?req) ''x-amz-content-sha256'' = Some (JStr (sha256hex sampleUploader payload))"
    by blast
  from p(1) b have "payload = str ''{SessionKey}''" by simp
  with p(2) have "map_of (fr_headers ?req) ''x-amz-content-sha256''
        = Some (JStr (sha256hex sampleUploader (str ''{SessionKey}'')))" by simp
  with m c b show ?thesis by blast
qed

lemma sample_world_upload:
  "w_upload (sampleWorld st) i = sampleUploadWorld (st i) (str ''img'' @ [48 + i])"
  by (simp add: sampleWorld_def)

lemma sample_env_fields:
  "uploader sampleEnv = sampleUploader" "tables sampleEnv = sampleTables"
  "parseRegionFromToken sampleEnv tok = sampleRegion"
  "ri_isInternational sampleRegion = False"
  by (simp_all add: sampleEnv_def sampleRegion_def)

theorem commit_status_aborts_witness:
  "(1::nat) < length [Buffer [1], Buffer [2]]
   \<and> firstUriStatus (sampleCommitResult 4001 (str ''img'' @ [48 + 1])) \<noteq> JNum (Fin 2000)
   \<and> outcome (uploadImageBuffer (uploader sampleEnv)
        (w_upload (sampleWorld (\<lambda>i. if i = 1 then 4001 else 2000)) 1) [2] (str ''token'') sampleRegion)
       = Inl (UriStatusAbnormal (JNum (Fin 4001)))
   \<and> (\<exists>e. outcome (generateImageComposition sampleEnv (sampleWorld (\<lambda>i. if i = 1 then 4001 else 2000))
              (str ''jimeng-4.0'') (str ''merge'') [Buffer [1], Buffer [2]] sampleOptions (str ''token''))
            = Inl e)
   \<and> draftsOf (trace (generateImageComposition sampleEnv (sampleWorld (\<lambda>i. if i = 1 then 4001 else 2000))
              (str ''jimeng-4.0'') (str ''merge'') [Buffer [1], Buffer [2]] sampleOptions (str ''token''))) = []"
proof -
  let ?W = "sampleWorld (\<lambda>i. if i = 1 then 4001 else 2000)"
  let ?cr = "sampleCommitResult 4001 (str ''img'' @ [48 + 1])"
  let ?resp = "sampleResponse ?cr"
  let ?images = "[Buffer [1], Buffer [2]]"
  have w1: "w_upload ?W 1 = sampleUploadWorld 4001 (str ''img'' @ [48 + 1])"
    by (simp add: sample_world_upload)
  have i: "(1::nat) < length ?images" by simp
  have r: "uw_commitResponse (w_upload ?W 1) = Inr ?resp"
    unfolding w1 by (simp add: sampleUploadWorld_def)
  have j: "resp_json ?resp = Inr ?cr" by (simp add: sampleResponse_def)
  have res: "optProp (optProp ?cr ''Result'') ''Results''
      = JArr (JObj [(str ''Uri'', JStr (str ''img'' @ [48 + 1])), (str ''UriStatus'', JNum (Fin 4001))] # [])"
    by (simp add: sampleCommitResult_def field_def str_def)
  have s: "firstUriStatus ?cr = JNum (Fin 4001)"
    unfolding firstUriStatus_def res by (simp add: field_def str_def)
  then have ne: "firstUriStatus ?cr \<noteq> JNum (Fin 2000)" by simp
  have ok: "resp_ok ?resp" by (simp add: sampleResponse_def)
  have noerr: "\<not> truthy (optProp (optProp ?cr ''ResponseMetadata'') ''Error'')"
    by (simp add: sampleCommitResult_def field_def str_def)
  obtain t where t: "outcome (requestUploadToken (uploader sampleEnv) (w_upload ?W 1) (str ''token'') sampleRegion) = Inr t"
    unfolding w1 sample_env_fields using sample_token by blast
  obtain tg where tg: "outcome (applyImageUpload (uploader sampleEnv) (w_upload ?W 1) sampleRegion t [2]) = Inr tg"
    unfolding w1 sample_env_fields using sample_apply by blast
  have put: "outcome (putImage (uploader sampleEnv) (w_upload ?W 1) sampleRegion tg [2]) = Inr ()"
    unfolding w1 sample_env_fields by (rule sample_put)
  note inst = commit_status_aborts [OF i r j ne, of sampleEnv "[2]" "str ''token''" sampleRegion t tg _ _
      "str ''jimeng-4.0''" "str ''merge''" sampleOptions]
  from inst t tg put ok noerr res s
  have a: "outcome (uploadImageBuffer (uploader sampleEnv) (w_upload ?W 1) [2] (str ''token'') sampleRegion)
       = Inl (UriStatusAbnormal (JNum (Fin 4001)))"
    by metis
  from inst have b: "\<exists>e. outcome (generateImageComposition sampleEnv ?W
              (str ''jimeng-4.0'') (str ''merge'') ?images sampleOptions (str ''token'')) = Inl e"
    and c: "draftsOf (trace (generateImageComposition sampleEnv ?W
              (str ''jimeng-4.0'') (str ''merge'') ?images sampleOptions (str ''token''))) = []"
    by blast+
  from i ne a b c show ?thesis by blast
qed

lemma sample_uploadImages:
  "outcome (uploadImages sampleEnv (sampleWorld (\<lambda>i. 2000)) tok sampleRegion n 0
              [Buffer [137, 80], Buffer [255, 216]] [])
     = Inr [JStr (str ''img'' @ [48 + 0]), JStr (str ''img'' @ [48 + 1])]"
proof -
  have p: "\<And>i b. outcome (processImageInput (uploader sampleEnv) (w_upload (sampleWorld (\<lambda>i. 2000)) i)
                (Buffer b) tok sampleRegion) = Inr (JStr (str ''img'' @ [48 + i]))"
    unfolding sample_world_upload sample_env_fields by (rule sample_process)
  show ?thesis
    by (simp add: outcome_uploadImages_Cons p uploadImages.simps run_simps)
qed


theorem nanobanana_fixed_size_witness:
  "(\<exists>d. draftsOf (trace (generateImages sampleEnv (sampleWorld (\<lambda>i. 2000))
                (str ''nanobanana'') (str ''a red fox'') sampleOptions (str ''token''))) = [d]
     \<and> li_width (cp_large_image_info (coreParamOf d)) = 1024
     \<and> li_height (cp_large_image_info (coreParamOf d)) = 1024
     \<and> cp_image_ratio (coreParamOf d) = 1
     \<and> li_resolution_type (cp_large_image_info (coreParamOf d)) = str ''2k'')
   \<and> Log LWarn NanobananaFixed
        \<in> set (trace (generateImages sampleEnv (sampleWorld (\<lambda>i. 2000))
                (str ''nanobanana'') (str ''a red fox'') sampleOptions (str ''token'')))
   \<and> (\<exists>d. draftsOf (trace (generateImageComposition sampleEnv (sampleWorld (\<lambda>i. 2000))
                (str ''nanobanana'') (str ''merge'') [Buffer [137, 80], Buffer [255, 216]]
                sampleOptions (str ''token''))) = [d]
     \<and> li_width (cp_large_image_info (coreParamOf d)) = 1024
     \<and> li_height (cp_large_image_info (coreParamOf d)) = 1024
     \<and> cp_image_ratio (coreParamOf d) = 1
     \<and> li_resolution_type (cp_large_image_info (coreParamOf d)) = str ''2k'')
   \<and> Log LWarn NanobananaFixed
        \<in> set (trace (generateImageComposition sampleEnv (sampleWorld (\<lambda>i. 2000))
                (str ''nanobanana'') (str ''merge'') [Buffer [137, 80], Buffer [255, 216]]
                sampleOptions (str ''token'')))
   \<and> draftsOf (trace (generateImages
          (sampleEnv \<lparr> tables := sampleTables \<lparr> IMAGE_MODEL_MAP_US := [] \<rparr>,
                       parseRegionFromToken := (\<lambda>t. sampleRegion \<lparr> ri_isInternational := True \<rparr>) \<rparr>)
          (sampleWorld (\<lambda>i. 2000)) (str ''nanobanana'') (str ''a red fox'') sampleOptions
          (str ''token''))) = []
   \<and> draftsOf (trace (generateImageComposition
          (sampleEnv \<lparr> tables := sampleTables \<lparr> IMAGE_MODEL_MAP_US := [] \<rparr>,
                       parseRegionFromToken := (\<lambda>t. sampleRegion \<lparr> ri_isInternational := True \<rparr>) \<rparr>)
          (sampleWorld (\<lambda>i. 2000)) (str ''nanobanana'') (str ''merge'')
          [Buffer [137, 80], Buffer [255, 216]] sampleOptions (str ''token''))) = []"
proof -
  let ?W = "sampleWorld (\<lambda>i. 2000)"
  let ?images = "[Buffer [137, 80], Buffer [255, 216]]"
  let ?ids = "[JStr (str ''img'' @ [48 + 0]), JStr (str ''img'' @ [48 + 1])]"
  let ?c = "\<lparr> totalCredit = Fin 60, giftCredit = Fin 60, purchaseCredit = Fin 0, vipCredit = Fin 0 \<rparr>"
  let ?gen = "generateImages sampleEnv ?W (str ''nanobanana'') (str ''a red fox'') sampleOptions (str ''token'')"
  let ?cmp = "generateImageComposition sampleEnv ?W (str ''nanobanana'') (str ''merge'') ?images
                sampleOptions (str ''token'')"
  let ?E = "sampleEnv \<lparr> tables := sampleTables \<lparr> IMAGE_MODEL_MAP_US := [] \<rparr>,
                       parseRegionFromToken := (\<lambda>t. sampleRegion \<lparr> ri_isInternational := True \<rparr>) \<rparr>"
  have g: "getModel (tables sampleEnv) (str ''nanobanana'')
      (ri_isInternational (parseRegionFromToken sampleEnv (str ''token'')))
      = Inr (Entry (str ''high_aes_general_v40''))"
    by (simp add: sample_env_fields sample_getModel)
  have cr: "w_getCredit ?W = Inr ?c"
    by (simp add: sampleWorld_def)
  have rc: "num_le (totalCredit ?c) 0 \<longrightarrow> w_receiveCredit ?W = Inr ()"
    by (simp add: sampleWorld_def)
  have up: "outcome (uploadImages sampleEnv ?W (str ''token'') (parseRegionFromToken sampleEnv (str ''token''))
                       (length ?images) 0 ?images []) = Inr ?ids"
    unfolding sample_env_fields by (rule sample_uploadImages)
  note inst = nanobanana_fixed_size [where E = sampleEnv and W = ?W and opts = sampleOptions
      and refreshToken = "str ''token''" and model = "Entry (str ''high_aes_general_v40'')"
      and c = ?c and ids = ?ids and images = ?images]
  from inst [where prompt = "str ''a red fox''"] g cr rc
  obtain d1 where d1: "draftsOf (trace ?gen) = [d1]" by blast
  then have m1: "d1 \<in> set (draftsOf (trace ?gen))" by simp
  from inst [where prompt = "str ''merge''"] g up
  obtain d2 where d2: "draftsOf (trace ?cmp) = [d2]" by blast
  then have m2: "d2 \<in> set (draftsOf (trace ?cmp))" by simp
  have s1: "li_width (cp_large_image_info (coreParamOf d1)) = 1024
     \<and> li_height (cp_large_image_info (coreParamOf d1)) = 1024
     \<and> cp_image_ratio (coreParamOf d1) = 1
     \<and> li_resolution_type (cp_large_image_info (coreParamOf d1)) = str ''2k''"
    using inst [where prompt = "str ''a red fox''" and d = d1] m1 by blast
  have s2: "li_width (cp_large_image_info (coreParamOf d2)) = 1024
     \<and> li_height (cp_large_image_info (coreParamOf d2)) = 1024
     \<and> cp_image_ratio (coreParamOf d2) = 1
     \<and> li_resolution_type (cp_large_image_info (coreParamOf d2)) = str ''2k''"
    using inst [where prompt = "str ''merge''" and d' = d2] m2 by blast
  have l1: "Log LWarn NanobananaFixed \<in> set (trace ?gen)"
    using inst [where prompt = "str ''a red fox''"] g by blast
  have l2: "Log LWarn NanobananaFixed \<in> set (trace ?cmp)"
    using inst [where prompt = "str ''merge''"] g by blast
  have n: "getModel (tables ?E) (str ''nanobanana'')
      (ri_isInternational (parseRegionFromToken ?E (str ''token'')))
      = Inl (IntlModelUnsupported (str ''nanobanana'') [])"
    by (simp add: getModel_def tableGet_def objectPrototypeKeys_def sampleRegion_def str_def)
  note none = nanobanana_fixed_size [where E = ?E and W = ?W and opts = sampleOptions
      and refreshToken = "str ''token''" and e = "IntlModelUnsupported (str ''nanobanana'') []"
      and images = ?images]
  have e1: "draftsOf (trace (generateImages ?E ?W (str ''nanobanana'') (str ''a red fox'')
               sampleOptions (str ''token''))) = []"
    using none [where prompt = "str ''a red fox''"] n by blast
  have e2: "draftsOf (trace (generateImageComposition ?E ?W (str ''nanobanana'') (str ''merge'')
               ?images sampleOptions (str ''token''))) = []"
    using none [where prompt = "str ''merge''"] n by blast
  from d1 s1 l1 d2 s2 l2 e1 e2 show ?thesis by blast
qed

theorem generateImages_credit_failure_is_fatal_witness:
  "outcome (generateImages sampleEnv
       ((sampleWorld (\<lambda>i. 2000)) \<lparr> w_getCredit := Inl (External (str ''token expired'')) \<rparr>)
       (str ''jimeng-4.0'') (str ''a red fox'')
       \<lparr> o_ratio = None, o_resolution = None, o_sampleStrength = None, o_negativePrompt = None \<rparr>
       (str ''token'')) = Inl (External (str ''token expired''))
   \<and> draftsOf (trace (generateImages sampleEnv
       ((sampleWorld (\<lambda>i. 2000)) \<lparr> w_getCredit := Inl (External (str ''token expired'')) \<rparr>)
       (str ''jimeng-4.0'') (str ''a red fox'')
       \<lparr> o_ratio = None, o_resolution = None, o_sampleStrength = None, o_negativePrompt = None \<rparr>
       (str ''token''))) = []"
proof -
  let ?W = "(sampleWorld (\<lambda>i. 2000)) \<lparr> w_getCredit := Inl (External (str ''token expired'')) \<rparr>"
  let ?opts = "\<lparr> o_ratio = None, o_resolution = None, o_sampleStrength = None, o_negativePrompt = None \<rparr>"
  have g: "getModel (tables sampleEnv) (str ''jimeng-4.0'')
      (ri_isInternational (parseRegionFromToken sampleEnv (str ''token'')))
      = Inr (Entry (str ''high_aes_general_v40''))"
    by (simp add: sample_env_fields sample_getModel)
  have rs: "outcome (resolveSize sampleEnv (str ''jimeng-4.0'') (Some (defaultTo (o_resolution ?opts) (str ''2k'')))
                    (Some (defaultTo (o_ratio ?opts) (str ''1:1''))))
      = Inr \<lparr> p_width = 2048, p_height = 2048, p_image_ratio = 1, p_resolution_type = str ''2k'' \<rparr>"
    by (simp add: resolveSize_other [OF jimeng40_not_nanobanana] run_simps sample_env_fields
        sample_getResolutionParams defaultTo_def)
  have c: "w_getCredit ?W = Inl (External (str ''token expired''))
      \<or> (\<exists>c. w_getCredit ?W = Inr c \<and> num_le (totalCredit c) 0
              \<and> w_receiveCredit ?W = Inl (External (str ''token expired'')))"
    by simp
  from generateImages_credit_failure_is_fatal [OF g rs c, of "str ''a red fox''"]
  show ?thesis by blast
qed



end
